theory Spec2Isabelle
  imports Main
begin

section \<open>Python values and dictionaries\<close>

text \<open>
  The code of \<^verbatim>\<open>cloud.py\<close> works on untyped dictionaries (\<^verbatim>\<open>dict[str, Any]\<close>) and on
  decoded JSON replies of the Tuya cloud. Values are therefore modelled dynamically.
  \<open>PAuthType v\<close> is a member of the enumeration \<^verbatim>\<open>tuya_iot.AuthType\<close> whose \<^verbatim>\<open>.value\<close> is
  \<open>v\<close>; it is the only non-JSON value the code tests for (\<^verbatim>\<open>isinstance(auth_type, AuthType)\<close>).
  A dictionary is an association list in insertion order, as a Python \<^verbatim>\<open>dict\<close> is;
  a Python dictionary never holds a key twice.
\<close>

datatype pyval =
    PNone
  | PBool bool
  | PInt int
  | PStr string
  | PList "pyval list"
  | PDict "(string \<times> pyval) list"
  | PAuthType int

type_synonym pydict = "(string \<times> pyval) list"

text \<open>Exceptions of the Python code, as values.\<close>

datatype pyerr = KeyError | TypeError | AttributeError | IndexError

text \<open>Truthiness (\<^verbatim>\<open>bool(x)\<close>, \<^verbatim>\<open>if x:\<close>). An enumeration member is always true.\<close>

fun truthy :: "pyval \<Rightarrow> bool" where
  "truthy PNone = False"
| "truthy (PBool b) = b"
| "truthy (PInt i) = (i \<noteq> 0)"
| "truthy (PStr s) = (s \<noteq> [])"
| "truthy (PList xs) = (xs \<noteq> [])"
| "truthy (PDict kvs) = (kvs \<noteq> [])"
| "truthy (PAuthType v) = True"

text \<open>\<^verbatim>\<open>d.get(k, default)\<close> and \<^verbatim>\<open>d.get(k)\<close>.\<close>

definition get_or :: "pydict \<Rightarrow> string \<Rightarrow> pyval \<Rightarrow> pyval" where
  "get_or d k dflt = (case map_of d k of None \<Rightarrow> dflt | Some v \<Rightarrow> v)"

definition dict_get :: "pydict \<Rightarrow> string \<Rightarrow> pyval" where
  "dict_get d k = get_or d k PNone"

text \<open>\<^verbatim>\<open>d[k]\<close> raises \<^verbatim>\<open>KeyError\<close> on a missing key.\<close>

definition dict_index :: "pydict \<Rightarrow> string \<Rightarrow> pyerr + pyval" where
  "dict_index d k = (case map_of d k of None \<Rightarrow> Inl KeyError | Some v \<Rightarrow> Inr v)"

text \<open>\<^verbatim>\<open>d[k] = v\<close>: an existing key keeps its position, a new key goes last.\<close>

fun dict_set :: "(string \<times> 'v) list \<Rightarrow> string \<Rightarrow> 'v \<Rightarrow> (string \<times> 'v) list" where
  "dict_set [] k v = [(k, v)]"
| "dict_set ((k', v') # d) k v = (if k' = k then (k, v) # d else (k', v') # dict_set d k v)"

text \<open>\<^verbatim>\<open>d.update(e)\<close>.\<close>

fun dict_update :: "pydict \<Rightarrow> pydict \<Rightarrow> pydict" where
  "dict_update d [] = d"
| "dict_update d ((k, v) # e) = dict_update (dict_set d k v) e"

text \<open>\<^verbatim>\<open>x.get(k)\<close> on an arbitrary value: only a dictionary has the method.\<close>

fun val_get :: "pyval \<Rightarrow> string \<Rightarrow> pyerr + pyval" where
  "val_get (PDict d) k = Inr (dict_get d k)"
| "val_get _ k = Inl AttributeError"

section \<open>Configuration keys\<close>

text \<open>
  Modelled from the spec: the key constants come from \<^verbatim>\<open>const.py\<close> and
  \<^verbatim>\<open>homeassistant.const\<close>, which are not part of the sources at hand. Each constant is
  given the string its name stands for; the development only uses that they are
  pairwise different strings.
\<close>

definition CONF_ENDPOINT :: string where "CONF_ENDPOINT = ''endpoint''"
definition CONF_ACCESS_ID :: string where "CONF_ACCESS_ID = ''access_id''"
definition CONF_ACCESS_SECRET :: string where "CONF_ACCESS_SECRET = ''access_secret''"
definition CONF_AUTH_TYPE :: string where "CONF_AUTH_TYPE = ''auth_type''"
definition CONF_USERNAME :: string where "CONF_USERNAME = ''username''"
definition CONF_PASSWORD :: string where "CONF_PASSWORD = ''password''"
definition CONF_COUNTRY_CODE :: string where "CONF_COUNTRY_CODE = ''country_code''"
definition CONF_APP_TYPE :: string where "CONF_APP_TYPE = ''tuya_app_type''"
definition CONF_ADDRESS :: string where "CONF_ADDRESS = ''address''"
definition CONF_UUID :: string where "CONF_UUID = ''uuid''"
definition CONF_LOCAL_KEY :: string where "CONF_LOCAL_KEY = ''local_key''"
definition CONF_DEVICE_ID :: string where "CONF_DEVICE_ID = ''device_id''"
definition CONF_CATEGORY :: string where "CONF_CATEGORY = ''category''"
definition CONF_PRODUCT_ID :: string where "CONF_PRODUCT_ID = ''product_id''"
definition CONF_DEVICE_NAME :: string where "CONF_DEVICE_NAME = ''device_name''"
definition CONF_PRODUCT_NAME :: string where "CONF_PRODUCT_NAME = ''product_name''"
definition CONF_PRODUCT_MODEL :: string where "CONF_PRODUCT_MODEL = ''product_model''"
definition CONF_FUNCTIONS :: string where "CONF_FUNCTIONS = ''functions''"
definition CONF_STATUS_RANGE :: string where "CONF_STATUS_RANGE = ''status_range''"
definition TUYA_RESPONSE_RESULT :: string where "TUYA_RESPONSE_RESULT = ''result''"
definition TUYA_RESPONSE_SUCCESS :: string where "TUYA_RESPONSE_SUCCESS = ''success''"
definition TUYA_FACTORY_INFO_MAC :: string where "TUYA_FACTORY_INFO_MAC = ''mac''"

definition CONF_TUYA_LOGIN_KEYS :: "string list" where
  "CONF_TUYA_LOGIN_KEYS =
     [CONF_ENDPOINT, CONF_ACCESS_ID, CONF_ACCESS_SECRET, CONF_AUTH_TYPE,
      CONF_USERNAME, CONF_PASSWORD, CONF_COUNTRY_CODE, CONF_APP_TYPE]"

definition CONF_TUYA_DEVICE_KEYS :: "string list" where
  "CONF_TUYA_DEVICE_KEYS =
     [CONF_UUID, CONF_LOCAL_KEY, CONF_DEVICE_ID, CONF_CATEGORY, CONF_PRODUCT_ID,
      CONF_DEVICE_NAME, CONF_PRODUCT_NAME, CONF_PRODUCT_MODEL]"

section \<open>The cache key\<close>

text \<open>
  \<^verbatim>\<open>json.dumps\<close> with its default settings: separators \<^verbatim>\<open>", "\<close> and \<^verbatim>\<open>": "\<close>,
  \<^verbatim>\<open>ensure_ascii\<close>, and \<^verbatim>\<open>TypeError\<close> for a value that is not serializable (here an
  \<^verbatim>\<open>AuthType\<close> member). A character is read as the code point of its byte.
\<close>

definition hex_digit :: "nat \<Rightarrow> char" where
  "hex_digit n = ''0123456789abcdef'' ! (n mod 16)"

fun show_nat :: "nat \<Rightarrow> string" where
  "show_nat n = (if n < 10 then [hex_digit n] else show_nat (n div 10) @ [hex_digit (n mod 10)])"

definition show_int :: "int \<Rightarrow> string" where
  "show_int i = (if i < 0 then CHR ''-'' # show_nat (nat (- i)) else show_nat (nat i))"

definition json_escape :: "char \<Rightarrow> string" where
  "json_escape c =
     (if c = CHR 0x22 then [CHR 0x5C, CHR 0x22]
      else if c = CHR 0x5C then [CHR 0x5C, CHR 0x5C]
      else if c = CHR 0x0A then [CHR 0x5C, CHR ''n'']
      else if c = CHR 0x0D then [CHR 0x5C, CHR ''r'']
      else if c = CHR 0x09 then [CHR 0x5C, CHR ''t'']
      else if c = CHR 0x08 then [CHR 0x5C, CHR ''b'']
      else if c = CHR 0x0C then [CHR 0x5C, CHR ''f'']
      else if (of_char c :: nat) < 32 \<or> 126 < (of_char c :: nat)
        then [CHR 0x5C, CHR ''u'', CHR ''0'', CHR ''0'',
              hex_digit ((of_char c :: nat) div 16), hex_digit (of_char c :: nat)]
      else [c])"

definition json_string :: "string \<Rightarrow> string" where
  "json_string s = [CHR 0x22] @ concat (map json_escape s) @ [CHR 0x22]"

fun join :: "string \<Rightarrow> string list \<Rightarrow> string" where
  "join sep [] = []"
| "join sep [x] = x"
| "join sep (x # y # ys) = x @ sep @ join sep (y # ys)"

fun json_dumps :: "pyval \<Rightarrow> pyerr + string"
and json_items :: "pyval list \<Rightarrow> pyerr + string list"
and json_pairs :: "(string \<times> pyval) list \<Rightarrow> pyerr + string list" where
  "json_dumps PNone = Inr ''null''"
| "json_dumps (PBool b) = Inr (if b then ''true'' else ''false'')"
| "json_dumps (PInt i) = Inr (show_int i)"
| "json_dumps (PStr s) = Inr (json_string s)"
| "json_dumps (PList xs) =
     (case json_items xs of Inl e \<Rightarrow> Inl e | Inr ss \<Rightarrow> Inr (''['' @ join '', '' ss @ '']''))"
| "json_dumps (PDict kvs) =
     (case json_pairs kvs of Inl e \<Rightarrow> Inl e | Inr ss \<Rightarrow> Inr (''{'' @ join '', '' ss @ ''}''))"
| "json_dumps (PAuthType v) = Inl TypeError"
| "json_items [] = Inr []"
| "json_items (x # xs) =
     (case json_dumps x of Inl e \<Rightarrow> Inl e
      | Inr s \<Rightarrow> (case json_items xs of Inl e \<Rightarrow> Inl e | Inr ss \<Rightarrow> Inr (s # ss)))"
| "json_pairs [] = Inr []"
| "json_pairs ((k, x) # kvs) =
     (case json_dumps x of Inl e \<Rightarrow> Inl e
      | Inr s \<Rightarrow> (case json_pairs kvs of Inl e \<Rightarrow> Inl e
                  | Inr ss \<Rightarrow> Inr ((json_string k @ '': '' @ s) # ss)))"

text \<open>\<^verbatim>\<open>_get_cache_key\<close>, \<^verbatim>\<open>_has_login\<close>, \<^verbatim>\<open>_has_credentials\<close>, \<^verbatim>\<open>_is_login_success\<close>.\<close>

definition get_cache_key :: "pydict \<Rightarrow> pyerr + string" where
  "get_cache_key data = json_dumps (PDict (map (\<lambda>key. (key, dict_get data key)) CONF_TUYA_LOGIN_KEYS))"

definition has_login :: "pydict \<Rightarrow> bool" where
  "has_login data = list_all (\<lambda>key. dict_get data key \<noteq> PNone) CONF_TUYA_LOGIN_KEYS"

definition has_credentials :: "pydict \<Rightarrow> bool" where
  "has_credentials data = list_all (\<lambda>key. dict_get data key \<noteq> PNone) CONF_TUYA_DEVICE_KEYS"

definition is_login_success :: "pyval \<Rightarrow> pyerr + bool" where
  "is_login_success response =
     (case response of
        PDict d \<Rightarrow> Inr (truthy (get_or d TUYA_RESPONSE_SUCCESS (PBool False)))
      | _ \<Rightarrow> Inl AttributeError)"

section \<open>Reading the replies of the cloud\<close>

text \<open>
  The operations the code applies to a decoded reply, each with the exception Python
  raises when the value has the wrong shape: \<^verbatim>\<open>len(x)\<close>, \<^verbatim>\<open>x[0]\<close>, \<^verbatim>\<open>k in x\<close>, \<^verbatim>\<open>x[k]\<close>
  for a string \<open>k\<close>, and the iteration of \<^verbatim>\<open>for device in devices\<close> guarded by
  \<^verbatim>\<open>isinstance(devices, Iterable)\<close>.
\<close>

fun py_len :: "pyval \<Rightarrow> pyerr + nat" where
  "py_len (PStr s) = Inr (length s)"
| "py_len (PList xs) = Inr (length xs)"
| "py_len (PDict kvs) = Inr (length kvs)"
| "py_len _ = Inl TypeError"

fun py_first :: "pyval \<Rightarrow> pyerr + pyval" where
  "py_first (PList []) = Inl IndexError"
| "py_first (PList (x # xs)) = Inr x"
| "py_first (PStr []) = Inl IndexError"
| "py_first (PStr (c # s)) = Inr (PStr [c])"
| "py_first (PDict kvs) = Inl KeyError"
| "py_first _ = Inl TypeError"

definition is_substr :: "string \<Rightarrow> string \<Rightarrow> bool" where
  "is_substr p s = list_ex (\<lambda>i. take (length p) (drop i s) = p) [0 ..< Suc (length s)]"

fun py_contains :: "pyval \<Rightarrow> string \<Rightarrow> pyerr + bool" where
  "py_contains (PDict kvs) k = Inr (map_of kvs k \<noteq> None)"
| "py_contains (PStr s) k = Inr (is_substr k s)"
| "py_contains (PList xs) k = Inr (PStr k \<in> set xs)"
| "py_contains _ k = Inl TypeError"

fun py_index :: "pyval \<Rightarrow> string \<Rightarrow> pyerr + pyval" where
  "py_index (PDict kvs) k = dict_index kvs k"
| "py_index _ k = Inl TypeError"

fun py_iter :: "pyval \<Rightarrow> pyval list option" where
  "py_iter (PList xs) = Some xs"
| "py_iter (PStr s) = Some (map (\<lambda>c. PStr [c]) s)"
| "py_iter (PDict kvs) = Some (map (\<lambda>kv. PStr (fst kv)) kvs)"
| "py_iter _ = None"

text \<open>
  The hardware address (lines 222 to 225 of \<^verbatim>\<open>cloud.py\<close>):
  \<^verbatim>\<open>":".join(raw[i : i + 2] for i in range(0, 12, 2)).upper()\<close>.
  \<^verbatim>\<open>str.upper\<close> is modelled on ASCII letters. Slicing and joining anything but a string
  raises (a list gives slices that \<^verbatim>\<open>join\<close> rejects, the other values cannot be sliced).
\<close>

definition py_slice :: "'a list \<Rightarrow> nat \<Rightarrow> nat \<Rightarrow> 'a list" where
  "py_slice s i j = take (j - i) (drop i s)"

definition upper_char :: "char \<Rightarrow> char" where
  "upper_char c =
     (if 97 \<le> (of_char c :: nat) \<and> (of_char c :: nat) \<le> 122
      then char_of ((of_char c :: nat) - 32) else c)"

definition format_mac :: "string \<Rightarrow> string" where
  "format_mac raw = map upper_char (join '':'' (map (\<lambda>i. py_slice raw i (i + 2)) [0, 2, 4, 6, 8, 10]))"

definition hex_digits :: string where
  "hex_digits = ''0123456789abcdefABCDEF''"

definition upper_hex_digits :: string where
  "upper_hex_digits = ''0123456789ABCDEF''"

fun mac_of_val :: "pyval \<Rightarrow> pyerr + string" where
  "mac_of_val (PStr raw) = Inr (format_mac raw)"
| "mac_of_val _ = Inl TypeError"

text \<open>
  Lines 218 to 225: from the factory-info reply to the address, \<open>Inr None\<close> when one of
  the guards is false and the device is passed over.
\<close>

definition factory_mac :: "pyval \<Rightarrow> pyerr + string option" where
  "factory_mac fi_response =
     (case val_get fi_response TUYA_RESPONSE_RESULT of
        Inl e \<Rightarrow> Inl e
      | Inr fi_response_result \<Rightarrow>
          if \<not> truthy fi_response_result then Inr None
          else (case py_len fi_response_result of
                  Inl e \<Rightarrow> Inl e
                | Inr n \<Rightarrow>
                    if \<not> 0 < n then Inr None
                    else (case py_first fi_response_result of
                            Inl e \<Rightarrow> Inl e
                          | Inr factory_info \<Rightarrow>
                              if \<not> truthy factory_info then Inr None
                              else (case py_contains factory_info TUYA_FACTORY_INFO_MAC of
                                      Inl e \<Rightarrow> Inl e
                                    | Inr present \<Rightarrow>
                                        if \<not> present then Inr None
                                        else (case py_index factory_info TUYA_FACTORY_INFO_MAC of
                                                Inl e \<Rightarrow> Inl e
                                              | Inr raw \<Rightarrow>
                                                  (case mac_of_val raw of
                                                     Inl e \<Rightarrow> Inl e
                                                   | Inr mac \<Rightarrow> Inr (Some mac)))))))"

text \<open>Lines 227 to 237: the entry stored for a device of the listing.\<close>

definition device_entry :: "string \<Rightarrow> pydict \<Rightarrow> pydict" where
  "device_entry mac device =
     [(CONF_ADDRESS, PStr mac),
      (CONF_UUID, dict_get device ''uuid''),
      (CONF_LOCAL_KEY, dict_get device ''local_key''),
      (CONF_DEVICE_ID, dict_get device ''id''),
      (CONF_CATEGORY, dict_get device ''category''),
      (CONF_PRODUCT_ID, dict_get device ''product_id''),
      (CONF_DEVICE_NAME, dict_get device ''name''),
      (CONF_PRODUCT_MODEL, dict_get device ''model''),
      (CONF_PRODUCT_NAME, dict_get device ''product_name'')]"

text \<open>Lines 250 to 258: the specification reply adds the functions and the status range.\<close>

definition spec_update :: "pyval \<Rightarrow> pydict \<Rightarrow> pyerr + pydict" where
  "spec_update spec_response entry =
     (case val_get spec_response TUYA_RESPONSE_RESULT of
        Inl e \<Rightarrow> Inl e
      | Inr spec_response_result \<Rightarrow>
          if \<not> truthy spec_response_result then Inr entry
          else (case val_get spec_response_result ''functions'' of
                  Inl e \<Rightarrow> Inl e
                | Inr fs \<Rightarrow>
                    (case val_get spec_response_result ''status'' of
                       Inl e \<Rightarrow> Inl e
                     | Inr st \<Rightarrow>
                         Inr (let entry1 = (if truthy fs then dict_set entry CONF_FUNCTIONS fs else entry)
                              in if truthy st then dict_set entry1 CONF_STATUS_RANGE st else entry1))))"

section \<open>The cloud, the cache and the manager\<close>

text \<open>
  The Tuya cloud is reached through \<^verbatim>\<open>tuya_iot.TuyaOpenAPI\<close>, which is not part of the
  repository. An API object is its four constructor arguments; a request is the login
  (\<^verbatim>\<open>api.connect\<close>) or one of the three \<^verbatim>\<open>api.get\<close> calls, named after the URL constant of
  \<^verbatim>\<open>const.py\<close> it is built from. The cloud is any deterministic machine
  \<open>remote :: 'r \<Rightarrow> request \<Rightarrow> reply \<times> 'r\<close>: it answers a request by raising or by a
  value, and may change its own state. Every request goes through \<open>call_remote\<close>, which
  records it in \<open>calls\<close>.
\<close>

datatype tuya_api = TuyaOpenAPI pyval pyval pyval pyval

datatype request =
    Connect tuya_api pyval pyval pyval pyval
  | GetDevices tuya_api
  | GetFactoryInfo tuya_api pyval
  | GetSpecification tuya_api pyval

datatype reply = Raises | Returns pyval

record 'r world =
  rstate :: 'r
  calls :: "request list"

definition call_remote :: "('r \<Rightarrow> request \<Rightarrow> reply \<times> 'r) \<Rightarrow> request \<Rightarrow> 'r world \<Rightarrow> reply \<times> 'r world" where
  "call_remote remote req w =
     (case remote (rstate w) req of (rep, r') \<Rightarrow> (rep, \<lparr>rstate = r', calls = calls w @ [req]\<rparr>))"

fun is_connect :: "request \<Rightarrow> bool" where
  "is_connect (Connect a u p c t) = True"
| "is_connect _ = False"

definition login_attempts :: "'r world \<Rightarrow> nat" where
  "login_attempts w = length (filter is_connect (calls w))"

text \<open>\<^verbatim>\<open>TuyaCloudCacheItem\<close> and the global \<^verbatim>\<open>_cache\<close>.\<close>

record cache_item =
  api :: "tuya_api option"
  login :: pydict
  credentials :: "(string \<times> pydict) list"

type_synonym cache = "(string \<times> cache_item) list"

text \<open>\<^verbatim>\<open>TuyaBLEDeviceCredentials\<close> of \<^verbatim>\<open>manager.py\<close>.\<close>

record device_credentials =
  uuid :: pyval
  local_key :: pyval
  device_id :: pyval
  category :: pyval
  product_id :: pyval
  device_name :: pyval
  product_model :: pyval
  product_name :: pyval
  functions_list :: pyval
  status_range :: pyval

text \<open>\<^verbatim>\<open>AbstractTuyaBLEDeviceManager.check_and_create_device_credentials\<close>.\<close>

definition check_and_create_device_credentials ::
  "pyval \<Rightarrow> pyval \<Rightarrow> pyval \<Rightarrow> pyval \<Rightarrow> pyval \<Rightarrow> pyval \<Rightarrow> pyval \<Rightarrow> pyval \<Rightarrow> pyval \<Rightarrow> pyval
     \<Rightarrow> device_credentials option" where
  "check_and_create_device_credentials u lk did cat pid dn pm pn fs sr =
     (if truthy u \<and> truthy lk \<and> truthy did \<and> truthy cat \<and> truthy pid
      then Some \<lparr>uuid = u, local_key = lk, device_id = did, category = cat, product_id = pid,
                 device_name = dn, product_model = pm, product_name = pn,
                 functions_list = fs, status_range = sr\<rparr>
      else None)"

text \<open>
  \<^verbatim>\<open>HASSTuyaBLEDeviceManager._login\<close>. The dictionary \<open>data\<close> is changed in place by line
  168, so the function returns it next to the reply. \<^verbatim>\<open>cache_item.login = data\<close> stores a
  reference to the caller's dictionary; the model stores its value at that moment.
\<close>

definition private_login ::
  "('r \<Rightarrow> request \<Rightarrow> reply \<times> 'r) \<Rightarrow> pydict \<Rightarrow> bool \<Rightarrow> cache \<times> 'r world
     \<Rightarrow> (pyerr + pyval) \<times> pydict \<times> cache \<times> 'r world" where
  "private_login remote data add_to_cache s =
     (case s of (c, w) \<Rightarrow>
      if length data = 0 then (Inr (PDict []), data, c, w)
      else
        let a = TuyaOpenAPI (get_or data CONF_ENDPOINT (PStr [])) (get_or data CONF_ACCESS_ID (PStr []))
                  (get_or data CONF_ACCESS_SECRET (PStr [])) (get_or data CONF_AUTH_TYPE (PStr []))
        in (case call_remote remote
                   (Connect a (get_or data CONF_USERNAME (PStr [])) (get_or data CONF_PASSWORD (PStr []))
                      (get_or data CONF_COUNTRY_CODE (PStr [])) (get_or data CONF_APP_TYPE (PStr []))) w of
              (Raises, w1) \<Rightarrow> (Inr (PDict []), data, c, w1)
            | (Returns response, w1) \<Rightarrow>
                (case is_login_success response of
                   Inl e \<Rightarrow> (Inl e, data, c, w1)
                 | Inr ok \<Rightarrow>
                     if \<not> ok then (Inr response, data, c, w1)
                     else (case dict_index data CONF_USERNAME of
                             Inl e \<Rightarrow> (Inl e, data, c, w1)
                           | Inr username \<Rightarrow>
                               if \<not> add_to_cache then (Inr response, data, c, w1)
                               else (case dict_index data CONF_AUTH_TYPE of
                                       Inl e \<Rightarrow> (Inl e, data, c, w1)
                                     | Inr auth_type \<Rightarrow>
                                         let data1 = (case auth_type of
                                                        PAuthType v \<Rightarrow> dict_set data CONF_AUTH_TYPE (PInt v)
                                                      | _ \<Rightarrow> data)
                                         in (case get_cache_key data1 of
                                               Inl e \<Rightarrow> (Inl e, data1, c, w1)
                                             | Inr cache_key \<Rightarrow>
                                                 (case map_of c cache_key of
                                                    Some cache_item \<Rightarrow>
                                                      (Inr response, data1,
                                                       dict_set c cache_key (cache_item\<lparr>api := Some a, login := data1\<rparr>), w1)
                                                  | None \<Rightarrow>
                                                      (Inr response, data1,
                                                       dict_set c cache_key \<lparr>api = Some a, login = data1, credentials = []\<rparr>, w1))))))))"

text \<open>
  \<^verbatim>\<open>_fill_cache_item\<close>. One round of the loop over the devices is \<open>fill_device\<close>; its first
  component is the exception that leaves the loop, if any. A device that is not a
  dictionary makes \<^verbatim>\<open>device.get("id")\<close> raise inside the \<^verbatim>\<open>try\<close> and again inside the
  handler (line 215), so the exception leaves the function.
\<close>

definition fill_device ::
  "('r \<Rightarrow> request \<Rightarrow> reply \<times> 'r) \<Rightarrow> tuya_api \<Rightarrow> pyval \<Rightarrow> (string \<times> pydict) list \<times> 'r world
     \<Rightarrow> pyerr option \<times> (string \<times> pydict) list \<times> 'r world" where
  "fill_device remote a device s =
     (case s of (creds, w) \<Rightarrow>
      (case device of
        PDict d \<Rightarrow>
          (case call_remote remote (GetFactoryInfo a (dict_get d ''id'')) w of
             (Raises, w1) \<Rightarrow> (None, creds, w1)
           | (Returns fi_response, w1) \<Rightarrow>
               (case factory_mac fi_response of
                  Inl e \<Rightarrow> (Some e, creds, w1)
                | Inr None \<Rightarrow> (None, creds, w1)
                | Inr (Some mac) \<Rightarrow>
                    let creds1 = dict_set creds mac (device_entry mac d)
                    in (case call_remote remote (GetSpecification a (dict_get d ''id'')) w1 of
                          (Raises, w2) \<Rightarrow> (None, creds1, w2)
                        | (Returns spec_response, w2) \<Rightarrow>
                            (case spec_update spec_response (device_entry mac d) of
                               Inl e \<Rightarrow> (Some e, creds1, w2)
                             | Inr entry \<Rightarrow> (None, dict_set creds1 mac entry, w2)))))
      | _ \<Rightarrow> (Some AttributeError, creds, w)))"

fun fill_devices ::
  "('r \<Rightarrow> request \<Rightarrow> reply \<times> 'r) \<Rightarrow> tuya_api \<Rightarrow> pyval list \<Rightarrow> (string \<times> pydict) list \<times> 'r world
     \<Rightarrow> pyerr option \<times> (string \<times> pydict) list \<times> 'r world" where
  "fill_devices remote a [] s = (None, s)"
| "fill_devices remote a (device # devices) s =
     (case fill_device remote a device s of
        (Some e, s1) \<Rightarrow> (Some e, s1)
      | (None, s1) \<Rightarrow> fill_devices remote a devices s1)"

text \<open>
  The item is an object held by the cache; the model names it by its key (no entry of
  the cache is ever removed or replaced by another object).
\<close>

definition fill_cache_item ::
  "('r \<Rightarrow> request \<Rightarrow> reply \<times> 'r) \<Rightarrow> string \<Rightarrow> cache \<times> 'r world \<Rightarrow> pyerr option \<times> cache \<times> 'r world" where
  "fill_cache_item remote key s =
     (case s of (c, w) \<Rightarrow>
      (case map_of c key of
        None \<Rightarrow> (None, c, w)
      | Some item \<Rightarrow>
          (case api item of
             None \<Rightarrow> (Some AttributeError, c, w)
           | Some a \<Rightarrow>
               (case call_remote remote (GetDevices a) w of
                  (Raises, w1) \<Rightarrow> (None, c, w1)
                | (Returns devices_response, w1) \<Rightarrow>
                    (case val_get devices_response TUYA_RESPONSE_RESULT of
                       Inl e \<Rightarrow> (Some e, c, w1)
                     | Inr devices \<Rightarrow>
                         if \<not> truthy devices then (None, c, w1)
                         else (case py_iter devices of
                                 None \<Rightarrow> (None, c, w1)
                               | Some ds \<Rightarrow>
                                   (case fill_devices remote a ds (credentials item, w1) of
                                      (err, creds, w2) \<Rightarrow>
                                        (err, dict_set c key (item\<lparr>credentials := creds\<rparr>), w2))))))))"

text \<open>
  \<^verbatim>\<open>build_cache\<close>. The configuration entries of the two domains are the lists
  \<open>tuya_entries\<close> (their \<^verbatim>\<open>data\<close>) and \<open>ble_entries\<close> (their \<^verbatim>\<open>options\<close>); the two loops have
  the same body, \<open>build_cache_entry\<close>. The local dictionary \<^verbatim>\<open>data\<close> is emptied and
  refilled for every entry.
\<close>

definition build_cache_entry ::
  "('r \<Rightarrow> request \<Rightarrow> reply \<times> 'r) \<Rightarrow> pydict \<Rightarrow> cache \<times> 'r world \<Rightarrow> pyerr option \<times> cache \<times> 'r world" where
  "build_cache_entry remote entry s =
     (case s of (c, w) \<Rightarrow>
      let data = dict_update [] entry
      in (case get_cache_key data of
            Inl e \<Rightarrow> (Some e, c, w)
          | Inr key \<Rightarrow>
              if (case map_of c key of None \<Rightarrow> True | Some item \<Rightarrow> length (credentials item) = 0)
              then (case private_login remote data True (c, w) of
                      (Inl e, data1, s1) \<Rightarrow> (Some e, s1)
                    | (Inr response, data1, s1) \<Rightarrow>
                        (case is_login_success response of
                           Inl e \<Rightarrow> (Some e, s1)
                         | Inr ok \<Rightarrow>
                             if \<not> ok then (None, s1)
                             else (case map_of (fst s1) key of
                                     None \<Rightarrow> (None, s1)
                                   | Some item \<Rightarrow>
                                       if length (credentials item) = 0
                                       then fill_cache_item remote key s1
                                       else (None, s1))))
              else (None, c, w)))"

fun build_cache_loop ::
  "('r \<Rightarrow> request \<Rightarrow> reply \<times> 'r) \<Rightarrow> pydict list \<Rightarrow> cache \<times> 'r world \<Rightarrow> pyerr option \<times> cache \<times> 'r world" where
  "build_cache_loop remote [] s = (None, s)"
| "build_cache_loop remote (entry # entries) s =
     (case build_cache_entry remote entry s of
        (Some e, s1) \<Rightarrow> (Some e, s1)
      | (None, s1) \<Rightarrow> build_cache_loop remote entries s1)"

definition build_cache ::
  "('r \<Rightarrow> request \<Rightarrow> reply \<times> 'r) \<Rightarrow> pydict list \<Rightarrow> pydict list \<Rightarrow> cache \<times> 'r world
     \<Rightarrow> pyerr option \<times> cache \<times> 'r world" where
  "build_cache remote tuya_entries ble_entries s =
     (case build_cache_loop remote tuya_entries s of
        (Some e, s1) \<Rightarrow> (Some e, s1)
      | (None, s1) \<Rightarrow> build_cache_loop remote ble_entries s1)"

text \<open>\<^verbatim>\<open>login\<close>: the manager logs in with its own dictionary \<^verbatim>\<open>self._data\<close>.\<close>

definition public_login ::
  "('r \<Rightarrow> request \<Rightarrow> reply \<times> 'r) \<Rightarrow> bool \<Rightarrow> pydict \<times> cache \<times> 'r world
     \<Rightarrow> (pyerr + pyval) \<times> pydict \<times> cache \<times> 'r world" where
  "public_login remote add_to_cache ms = (case ms of (data, s) \<Rightarrow> private_login remote data add_to_cache s)"

text \<open>
  \<^verbatim>\<open>get_device_credentials\<close>, in three parts as in the source: the choice of the key
  (lines 318 to 325), the search for the credentials (lines 314 to 338), and the
  construction of the result (lines 340 to 360). The state of a manager is its
  dictionary \<^verbatim>\<open>self._data\<close> next to the cache and the cloud. The local variable \<^verbatim>\<open>item\<close>
  is the key of the item, \<^verbatim>\<open>credentials\<close> the dictionary found.
\<close>

fun find_cache_key :: "cache \<Rightarrow> string \<Rightarrow> string option" where
  "find_cache_key [] address = None"
| "find_cache_key ((key, item) # c) address =
     (if map_of (credentials item) address \<noteq> None then Some key else find_cache_key c address)"

definition lookup_item :: "cache \<Rightarrow> string option \<Rightarrow> string option" where
  "lookup_item c cache_key =
     (case cache_key of
        None \<Rightarrow> None
      | Some key \<Rightarrow> (case map_of c key of None \<Rightarrow> None | Some item \<Rightarrow> Some key))"

definition item_credentials :: "cache \<Rightarrow> string option \<Rightarrow> string \<Rightarrow> pydict option" where
  "item_credentials c item address =
     (case item of
        None \<Rightarrow> None
      | Some key \<Rightarrow> (case map_of c key of None \<Rightarrow> None | Some it \<Rightarrow> map_of (credentials it) address))"

definition find_credentials ::
  "('r \<Rightarrow> request \<Rightarrow> reply \<times> 'r) \<Rightarrow> string \<Rightarrow> bool \<Rightarrow> pydict \<times> cache \<times> 'r world
     \<Rightarrow> (pyerr + (string option \<times> pydict option)) \<times> pydict \<times> cache \<times> 'r world" where
  "find_credentials remote address force_update ms =
     (case ms of (data, c, w) \<Rightarrow>
      if \<not> force_update \<and> has_credentials data then (Inr (None, Some data), data, c, w)
      else
        (case (if has_login data
               then (case get_cache_key data of Inl e \<Rightarrow> Inl e | Inr key \<Rightarrow> Inr (Some key))
               else Inr (find_cache_key c address)) of
           Inl e \<Rightarrow> (Inl e, data, c, w)
         | Inr cache_key \<Rightarrow>
             let item = (if cache_key \<noteq> None \<and> cache_key \<noteq> Some [] then lookup_item c cache_key else None)
             in if item = None \<or> force_update
                then (case public_login remote True (data, c, w) of
                        (Inl e, ms1) \<Rightarrow> (Inl e, ms1)
                      | (Inr response, data1, c1, w1) \<Rightarrow>
                          (case is_login_success response of
                             Inl e \<Rightarrow> (Inl e, data1, c1, w1)
                           | Inr ok \<Rightarrow>
                               if \<not> ok then (Inr (item, item_credentials c1 item address), data1, c1, w1)
                               else (case lookup_item c1 cache_key of
                                       None \<Rightarrow> (Inr (None, None), data1, c1, w1)
                                     | Some key \<Rightarrow>
                                         (case fill_cache_item remote key (c1, w1) of
                                            (Some e, c2, w2) \<Rightarrow> (Inl e, data1, c2, w2)
                                          | (None, c2, w2) \<Rightarrow>
                                              (Inr (Some key, item_credentials c2 (Some key) address),
                                               data1, c2, w2)))))
                else (Inr (item, item_credentials c item address), data, c, w)))"

definition make_credentials :: "pydict \<Rightarrow> device_credentials" where
  "make_credentials creds =
     \<lparr>uuid = get_or creds CONF_UUID (PStr []),
      local_key = get_or creds CONF_LOCAL_KEY (PStr []),
      device_id = get_or creds CONF_DEVICE_ID (PStr []),
      category = get_or creds CONF_CATEGORY (PStr []),
      product_id = get_or creds CONF_PRODUCT_ID (PStr []),
      device_name = get_or creds CONF_DEVICE_NAME (PStr []),
      product_model = get_or creds CONF_PRODUCT_MODEL (PStr []),
      product_name = get_or creds CONF_PRODUCT_NAME (PStr []),
      functions_list = get_or creds CONF_FUNCTIONS (PList []),
      status_range = get_or creds CONF_STATUS_RANGE (PList [])\<rparr>"

definition get_device_credentials ::
  "('r \<Rightarrow> request \<Rightarrow> reply \<times> 'r) \<Rightarrow> string \<Rightarrow> bool \<Rightarrow> bool \<Rightarrow> pydict \<times> cache \<times> 'r world
     \<Rightarrow> (pyerr + device_credentials option) \<times> pydict \<times> cache \<times> 'r world" where
  "get_device_credentials remote address force_update save_data ms =
     (case find_credentials remote address force_update ms of
        (Inl e, ms1) \<Rightarrow> (Inl e, ms1)
      | (Inr (item, found), data1, c1, w1) \<Rightarrow>
          (case found of
             None \<Rightarrow> (Inr None, data1, c1, w1)
           | Some creds \<Rightarrow>
               if creds = [] then (Inr None, data1, c1, w1)
               else (Inr (Some (make_credentials creds)),
                     (if save_data
                      then dict_update
                             (case item of
                                None \<Rightarrow> data1
                              | Some key \<Rightarrow>
                                  (case map_of c1 key of
                                     None \<Rightarrow> data1
                                   | Some it \<Rightarrow> dict_update data1 (login it)))
                             creds
                      else data1),
                     c1, w1)))"

text \<open>
  A credential is complete when the five fields that
  \<^verbatim>\<open>check_and_create_device_credentials\<close> tests are all true values.
\<close>

definition complete :: "device_credentials \<Rightarrow> bool" where
  "complete cr \<longleftrightarrow>
     truthy (uuid cr) \<and> truthy (local_key cr) \<and> truthy (device_id cr) \<and>
     truthy (category cr) \<and> truthy (product_id cr)"

section \<open>Cache entries that are kept\<close>

text \<open>
  \<open>keeps_credentials c c'\<close>: every key of the cache \<open>c\<close> is still a key of \<open>c'\<close>, and every
  address that had credentials under that key still has credentials under it.
\<close>

definition keeps_credentials :: "cache \<Rightarrow> cache \<Rightarrow> bool" where
  "keeps_credentials c c' =
     list_all
       (\<lambda>key. case map_of c key of
                 None \<Rightarrow> True
               | Some item \<Rightarrow>
                   (case map_of c' key of
                      None \<Rightarrow> False
                    | Some item' \<Rightarrow>
                        list_all (\<lambda>address. map_of (credentials item') address \<noteq> None)
                          (map fst (credentials item))))
       (map fst c)"

text \<open>The API object that \<^verbatim>\<open>_login\<close> builds from a dictionary (lines 141 to 146).\<close>

definition login_api :: "pydict \<Rightarrow> tuya_api" where
  "login_api data =
     TuyaOpenAPI (get_or data CONF_ENDPOINT (PStr [])) (get_or data CONF_ACCESS_ID (PStr []))
       (get_or data CONF_ACCESS_SECRET (PStr [])) (get_or data CONF_AUTH_TYPE (PStr []))"

section \<open>A cloud and a configuration for the examples\<close>

text \<open>
  A cloud that accepts every login, lists \<open>devices\<close>, reports as factory address of a
  device its identifier, and answers the specification request except for the
  identifiers in \<open>no_spec\<close>, for which the call raises.
\<close>

definition demo_remote :: "pyval list \<Rightarrow> pyval list \<Rightarrow> unit \<Rightarrow> request \<Rightarrow> reply \<times> unit" where
  "demo_remote devices no_spec r req =
     (case req of
        Connect a u p c t \<Rightarrow> (Returns (PDict [(''success'', PBool True)]), ())
      | GetDevices a \<Rightarrow> (Returns (PDict [(''result'', PList devices)]), ())
      | GetFactoryInfo a i \<Rightarrow>
          (Returns (PDict [(''result'', PList [PDict [(''id'', i), (''mac'', i)]])]), ())
      | GetSpecification a i \<Rightarrow>
          (if i \<in> set no_spec then (Raises, ())
           else (Returns (PDict [(''result'',
                   PDict [(''functions'', PList [PStr ''switch_led'']),
                          (''status'', PList [PStr ''bright_value''])])]), ())))"

definition demo_fields :: "string \<Rightarrow> string \<Rightarrow> pydict" where
  "demo_fields i key =
     [(''id'', PStr i), (''uuid'', PStr (''uuid'' @ i)), (''local_key'', PStr key),
      (''category'', PStr ''dd''), (''product_id'', PStr ''nvfrtxlq''), (''name'', PStr ''Strip''),
      (''model'', PStr ''SL1''), (''product_name'', PStr ''LED'')]"

definition demo_device :: "string \<Rightarrow> string \<Rightarrow> pyval" where
  "demo_device i key = PDict (demo_fields i key)"

definition demo_login :: pydict where
  "demo_login =
     [(''endpoint'', PStr ''https://openapi.tuyaeu.com''), (''access_id'', PStr ''id''),
      (''access_secret'', PStr ''secret''), (''auth_type'', PInt 0), (''username'', PStr ''ann''),
      (''password'', PStr ''pw''), (''country_code'', PStr ''49''), (''tuya_app_type'', PStr ''tuyaSmart'')]"

definition world0 :: "unit world" where
  "world0 = \<lparr>rstate = (), calls = []\<rparr>"

definition hint :: pydict where
  "hint =
     [(''uuid'', PStr ''tuya5f1c''), (''local_key'', PStr ''k9''), (''device_id'', PStr ''bf01''),
      (''category'', PStr ''dd''), (''product_id'', PStr ''p7''), (''device_name'', PStr ''Strip''),
      (''product_name'', PStr ''LED''), (''product_model'', PStr ''M1'')]"

text \<open>
  The dictionary of \<^verbatim>\<open>prototype.py\<close> (\<^verbatim>\<open>CLOUD_CONFIG\<close>) has these five keys and no others;
  the values here are placeholders.
\<close>

definition prototype_config :: pydict where
  "prototype_config =
     [(''endpoint'', PStr ''https://openapi.tuyaus.com''), (''access_id'', PStr ''id''),
      (''access_secret'', PStr ''secret''), (''username'', PStr ''ann''), (''password'', PStr ''pw'')]"

text \<open>
  The cache after a first call of \<^verbatim>\<open>get_device_credentials\<close> against the example cloud,
  and a login dictionary whose \<^verbatim>\<open>auth_type\<close> is still a member of \<^verbatim>\<open>AuthType\<close> and that has
  no application type (the dictionary of \<^verbatim>\<open>_try_login\<close> in \<^verbatim>\<open>config_flow.py\<close> before its loop).
\<close>

definition demo_cache :: cache where
  "demo_cache =
     fst (snd (snd (get_device_credentials (demo_remote [demo_device ''dc234d0a1b2f'' ''k9''] [])
                      ''DC:23:4D:0A:1B:2F'' False False (demo_login, [], world0))))"

definition enum_login :: pydict where
  "enum_login =
     [(''endpoint'', PStr ''https://openapi.tuyaeu.com''), (''auth_type'', PAuthType 1),
      (''access_id'', PStr ''id''), (''access_secret'', PStr ''secret''), (''username'', PStr ''ann''),
      (''password'', PStr ''pw''), (''country_code'', PStr ''49'')]"

text \<open>
  Three devices A, B and C; the specification request of B raises, and the listing
  raises for the account \<open>offline_login\<close>.
\<close>

definition offline_login :: pydict where
  "offline_login = dict_set demo_login ''access_id'' (PStr ''offline'')"

definition abc_remote :: "unit \<Rightarrow> request \<Rightarrow> reply \<times> unit" where
  "abc_remote r req =
     (case req of
        GetDevices a \<Rightarrow>
          (if a = login_api offline_login then (Raises, ())
           else demo_remote [demo_device ''a00000000001'' ''kA'', demo_device ''b00000000002'' ''kB'',
                             demo_device ''c00000000003'' ''kC''] [PStr ''b00000000002''] r req)
      | _ \<Rightarrow> demo_remote [demo_device ''a00000000001'' ''kA'', demo_device ''b00000000002'' ''kB'',
                             demo_device ''c00000000003'' ''kC''] [PStr ''b00000000002''] r req)"

definition abc_cache :: cache where
  "abc_cache = fst (snd (snd (private_login abc_remote demo_login True ([], world0))))"

section \<open>Properties\<close>

subsection \<open>The cache key\<close>

lemmas conf_defs = CONF_ENDPOINT_def CONF_ACCESS_ID_def CONF_ACCESS_SECRET_def CONF_AUTH_TYPE_def
  CONF_USERNAME_def CONF_PASSWORD_def CONF_COUNTRY_CODE_def CONF_APP_TYPE_def CONF_ADDRESS_def
  CONF_UUID_def CONF_LOCAL_KEY_def CONF_DEVICE_ID_def CONF_CATEGORY_def CONF_PRODUCT_ID_def
  CONF_DEVICE_NAME_def CONF_PRODUCT_NAME_def CONF_PRODUCT_MODEL_def CONF_FUNCTIONS_def
  CONF_STATUS_RANGE_def TUYA_RESPONSE_RESULT_def TUYA_RESPONSE_SUCCESS_def TUYA_FACTORY_INFO_MAC_def

text \<open>
  Claim C5. The cache key is a function of the values found under the eight login keys
  only: two dictionaries that agree on them (whatever the order of their entries and
  whatever other keys they hold) get the same key, or the same \<^verbatim>\<open>TypeError\<close> of
  \<^verbatim>\<open>json.dumps\<close>.
\<close>

theorem cache_key_depends_on_login_values:
  assumes "\<forall>key \<in> set CONF_TUYA_LOGIN_KEYS. dict_get d1 key = dict_get d2 key"
  shows "get_cache_key d1 = get_cache_key d2"
proof -
  have "map (\<lambda>key. (key, dict_get d1 key)) CONF_TUYA_LOGIN_KEYS
      = map (\<lambda>key. (key, dict_get d2 key)) CONF_TUYA_LOGIN_KEYS"
    using assms by (intro map_cong) simp_all
  then show ?thesis
    by (simp only: get_cache_key_def)
qed

theorem cache_key_depends_on_login_values_witness:
  "list_all
     (\<lambda>key. dict_get [(''username'', PStr ''ann''), (''address'', PStr ''AA:BB''),
                          (''endpoint'', PStr ''eu''), (''auth_type'', PInt 0)] key
              = dict_get [(''auth_type'', PInt 0), (''endpoint'', PStr ''eu''),
                          (''username'', PStr ''ann''), (''uuid'', PStr ''x'')] key)
     CONF_TUYA_LOGIN_KEYS
   \<and> get_cache_key [(''username'', PStr ''ann''), (''address'', PStr ''AA:BB''),
                     (''endpoint'', PStr ''eu''), (''auth_type'', PInt 0)]
     = get_cache_key [(''auth_type'', PInt 0), (''endpoint'', PStr ''eu''),
                      (''username'', PStr ''ann''), (''uuid'', PStr ''x'')]"
proof -
  have h: "list_all
     (\<lambda>key. dict_get [(''username'', PStr ''ann''), (''address'', PStr ''AA:BB''),
                          (''endpoint'', PStr ''eu''), (''auth_type'', PInt 0)] key
              = dict_get [(''auth_type'', PInt 0), (''endpoint'', PStr ''eu''),
                          (''username'', PStr ''ann''), (''uuid'', PStr ''x'')] key)
     CONF_TUYA_LOGIN_KEYS"
    by (simp add: CONF_TUYA_LOGIN_KEYS_def conf_defs dict_get_def get_or_def)
  from h have "\<forall>key \<in> set CONF_TUYA_LOGIN_KEYS.
        dict_get [(''username'', PStr ''ann''), (''address'', PStr ''AA:BB''),
                  (''endpoint'', PStr ''eu''), (''auth_type'', PInt 0)] key
      = dict_get [(''auth_type'', PInt 0), (''endpoint'', PStr ''eu''),
                  (''username'', PStr ''ann''), (''uuid'', PStr ''x'')] key"
    unfolding list_all_iff .
  from h cache_key_depends_on_login_values [OF this] show ?thesis by blast
qed

subsection \<open>The hardware address\<close>

lemma upper_char_table:
  "list_all (\<lambda>c. upper_char c \<in> set upper_hex_digits \<and> upper_char c \<noteq> CHR '':'') hex_digits"
  by code_simp

lemma upper_char_hex:
  "c \<in> set hex_digits \<Longrightarrow> upper_char c \<in> set upper_hex_digits \<and> upper_char c \<noteq> CHR '':''"
  using upper_char_table by (simp add: list_all_iff)

lemma upper_char_colon: "upper_char CHR '':'' = CHR '':''"
  by code_simp

lemma upt12: "[0 ..< 12] = [0::nat, 1, 2, 3, 4, 5, 6, 7, 8, 9, 10, 11]"
  by code_simp

lemma list12:
  assumes "length (xs :: 'a list) = 12"
  obtains a b c d e f g h i j k l where "xs = [a, b, c, d, e, f, g, h, i, j, k, l]"
proof -
  have "xs = map (\<lambda>i. xs ! i) [0 ..< length xs]" by (simp add: map_nth)
  then have "xs = map (\<lambda>i. xs ! i) [0 ..< 12]" using assms by simp
  then have "xs = [xs ! 0, xs ! 1, xs ! 2, xs ! 3, xs ! 4, xs ! 5, xs ! 6, xs ! 7, xs ! 8, xs ! 9, xs ! 10, xs ! 11]"
    unfolding upt12 by simp
  then show ?thesis by (rule that)
qed

text \<open>
  Claim C6. For a raw address of twelve hexadecimal characters the formatted address has
  17 characters, consists of six groups of two characters joined by colons, holds only
  upper-case hexadecimal digits and colons, and spells the raw address in upper case;
  being a function, it gives the same result for the same raw value.
\<close>

theorem format_mac_shape:
  assumes len: "length raw = 12" and hex: "set raw \<subseteq> set hex_digits"
  shows "length (format_mac raw) = 17
       \<and> format_mac raw =
           join '':'' (map (\<lambda>i. [upper_char (raw ! i), upper_char (raw ! Suc i)]) [0, 2, 4, 6, 8, 10])
       \<and> set (format_mac raw) \<subseteq> insert CHR '':'' (set upper_hex_digits)
       \<and> filter (\<lambda>c. c \<noteq> CHR '':'') (format_mac raw) = map upper_char raw"
proof -
  from len obtain a b c d e f g h i j k l where raw: "raw = [a, b, c, d, e, f, g, h, i, j, k, l]"
    by (rule list12)
  have fm: "format_mac raw =
      [upper_char a, upper_char b, CHR '':'', upper_char c, upper_char d, CHR '':'',
       upper_char e, upper_char f, CHR '':'', upper_char g, upper_char h, CHR '':'',
       upper_char i, upper_char j, CHR '':'', upper_char k, upper_char l]"
    by (simp add: raw format_mac_def py_slice_def upper_char_colon)
  have up: "\<forall>x \<in> set raw. upper_char x \<in> set upper_hex_digits \<and> upper_char x \<noteq> CHR '':''"
    using hex upper_char_hex by blast
  have 1: "length (format_mac raw) = 17" by (simp add: fm)
  have 2: "format_mac raw =
           join '':'' (map (\<lambda>i. [upper_char (raw ! i), upper_char (raw ! Suc i)]) [0, 2, 4, 6, 8, 10])"
    by (simp add: fm) (simp add: raw)
  have 3: "set (format_mac raw) \<subseteq> insert CHR '':'' (set upper_hex_digits)"
    using up unfolding fm by (simp add: raw)
  have 4: "filter (\<lambda>c. c \<noteq> CHR '':'') (format_mac raw) = map upper_char raw"
    using up unfolding fm by (simp add: raw)
  from 1 2 3 4 show ?thesis by blast
qed

theorem format_mac_shape_witness:
  "length ''dc234d0a1b2f'' = 12 \<and> set ''dc234d0a1b2f'' \<subseteq> set hex_digits
   \<and> format_mac ''dc234d0a1b2f'' = ''DC:23:4D:0A:1B:2F''
   \<and> length (format_mac ''dc234d0a1b2f'') = 17"
proof -
  have l: "length ''dc234d0a1b2f'' = 12" by simp
  have "list_all (\<lambda>c. c \<in> set hex_digits) ''dc234d0a1b2f''" by code_simp
  then have s: "set ''dc234d0a1b2f'' \<subseteq> set hex_digits" unfolding list_all_iff by blast
  have v: "format_mac ''dc234d0a1b2f'' = ''DC:23:4D:0A:1B:2F''"
    by code_simp
  from format_mac_shape [OF l s] have "length (format_mac ''dc234d0a1b2f'') = 17" by blast
  with l s v show ?thesis by blast
qed

subsection \<open>The fast path\<close>

lemma dict_set_same:
  "distinct (map fst d) \<Longrightarrow> (k, v) \<in> set d \<Longrightarrow> dict_set d k v = d"
  by (induction d) (auto simp: rev_image_eqI)

lemma dict_update_subset:
  "distinct (map fst d) \<Longrightarrow> set e \<subseteq> set d \<Longrightarrow> dict_update d e = d"
  by (induction e) (auto simp: dict_set_same)

lemma dict_update_self: "distinct (map fst d) \<Longrightarrow> dict_update d d = d"
  by (simp add: dict_update_subset)

lemma get_or_present: "dict_get d k \<noteq> PNone \<Longrightarrow> get_or d k dflt = dict_get d k"
  by (auto simp: dict_get_def get_or_def split: option.splits)

lemma has_credentials_fields:
  assumes "has_credentials data"
  shows "make_credentials data =
     \<lparr>uuid = dict_get data CONF_UUID, local_key = dict_get data CONF_LOCAL_KEY,
      device_id = dict_get data CONF_DEVICE_ID, category = dict_get data CONF_CATEGORY,
      product_id = dict_get data CONF_PRODUCT_ID, device_name = dict_get data CONF_DEVICE_NAME,
      product_model = dict_get data CONF_PRODUCT_MODEL, product_name = dict_get data CONF_PRODUCT_NAME,
      functions_list = get_or data CONF_FUNCTIONS (PList []),
      status_range = get_or data CONF_STATUS_RANGE (PList [])\<rparr>"
  using assms
  by (simp add: has_credentials_def CONF_TUYA_DEVICE_KEYS_def make_credentials_def get_or_present)

lemma has_credentials_nonempty: "has_credentials data \<Longrightarrow> data \<noteq> []"
  by (auto simp: has_credentials_def CONF_TUYA_DEVICE_KEYS_def dict_get_def get_or_def)

text \<open>
  Claim C2. When the manager's dictionary holds a value other than \<^verbatim>\<open>None\<close> under every
  device key and \<^verbatim>\<open>force_update\<close> is false, the call returns the credentials made of
  exactly these values (and of the functions and status range, if present), and leaves
  the dictionary, the cache and the cloud as they were: the list of requests is the
  same, so no login, listing, factory-info or specification request was sent.
\<close>

theorem complete_hint_is_returned:
  assumes "has_credentials data" and "distinct (map fst data)"
  shows "get_device_credentials remote address False save_data (data, c, w) =
     (Inr (Some
        \<lparr>uuid = dict_get data CONF_UUID, local_key = dict_get data CONF_LOCAL_KEY,
         device_id = dict_get data CONF_DEVICE_ID, category = dict_get data CONF_CATEGORY,
         product_id = dict_get data CONF_PRODUCT_ID, device_name = dict_get data CONF_DEVICE_NAME,
         product_model = dict_get data CONF_PRODUCT_MODEL, product_name = dict_get data CONF_PRODUCT_NAME,
         functions_list = get_or data CONF_FUNCTIONS (PList []),
         status_range = get_or data CONF_STATUS_RANGE (PList [])\<rparr>),
      data, c, w)"
proof -
  have "find_credentials remote address False (data, c, w) = (Inr (None, Some data), data, c, w)"
    using assms(1) by (simp add: find_credentials_def)
  then show ?thesis
    using assms has_credentials_nonempty [OF assms(1)]
    by (simp add: get_device_credentials_def has_credentials_fields dict_update_self)
qed

theorem complete_hint_is_returned_witness:
  "has_credentials hint \<and> distinct (map fst hint) \<and>
   get_device_credentials (\<lambda>r req. (Raises, r)) ''DC:23:4D:0A:1B:2F'' False True
       (hint, [], \<lparr>rstate = (), calls = []\<rparr>) =
     (Inr (Some
        \<lparr>uuid = PStr ''tuya5f1c'', local_key = PStr ''k9'', device_id = PStr ''bf01'',
         category = PStr ''dd'', product_id = PStr ''p7'', device_name = PStr ''Strip'',
         product_model = PStr ''M1'', product_name = PStr ''LED'',
         functions_list = PList [], status_range = PList []\<rparr>),
      hint, [], \<lparr>rstate = (), calls = []\<rparr>)"
proof -
  have h: "has_credentials hint"
    by (simp add: has_credentials_def CONF_TUYA_DEVICE_KEYS_def conf_defs hint_def dict_get_def get_or_def)
  have d: "distinct (map fst hint)" by (simp add: hint_def)
  have v: "dict_get hint CONF_UUID = PStr ''tuya5f1c''" "dict_get hint CONF_LOCAL_KEY = PStr ''k9''"
    "dict_get hint CONF_DEVICE_ID = PStr ''bf01''" "dict_get hint CONF_CATEGORY = PStr ''dd''"
    "dict_get hint CONF_PRODUCT_ID = PStr ''p7''" "dict_get hint CONF_DEVICE_NAME = PStr ''Strip''"
    "dict_get hint CONF_PRODUCT_MODEL = PStr ''M1''" "dict_get hint CONF_PRODUCT_NAME = PStr ''LED''"
    "get_or hint CONF_FUNCTIONS (PList []) = PList []" "get_or hint CONF_STATUS_RANGE (PList []) = PList []"
    by (simp_all add: conf_defs hint_def dict_get_def get_or_def)
  from complete_hint_is_returned [OF h d, of "\<lambda>r req. (Raises, r)" "''DC:23:4D:0A:1B:2F''" True "[]" "\<lparr>rstate = (), calls = []\<rparr>"]
  have "get_device_credentials (\<lambda>r req. (Raises, r)) ''DC:23:4D:0A:1B:2F'' False True
       (hint, [], \<lparr>rstate = (), calls = []\<rparr>) =
     (Inr (Some
        \<lparr>uuid = PStr ''tuya5f1c'', local_key = PStr ''k9'', device_id = PStr ''bf01'',
         category = PStr ''dd'', product_id = PStr ''p7'', device_name = PStr ''Strip'',
         product_model = PStr ''M1'', product_name = PStr ''LED'',
         functions_list = PList [], status_range = PList []\<rparr>),
      hint, [], \<lparr>rstate = (), calls = []\<rparr>)"
    by (simp only: v)
  with h d show ?thesis by blast
qed


subsection \<open>Incomplete credentials and exceptions\<close>

text \<open>
  Claim C1. A device listed by the cloud with an empty local key is returned by
  \<^verbatim>\<open>get_device_credentials\<close> as a credential whose local key is empty, although
  \<^verbatim>\<open>check_and_create_device_credentials\<close> refuses these very fields.
\<close>

theorem incomplete_credential_is_returned:
  "(case get_device_credentials (demo_remote [demo_device ''dc234d0a1b2f'' []] [])
           ''DC:23:4D:0A:1B:2F'' False False (demo_login, [], world0) of
      (Inr (Some cr), ms) \<Rightarrow>
        local_key cr = PStr [] \<and> \<not> complete cr \<and>
        check_and_create_device_credentials (uuid cr) (local_key cr) (device_id cr) (category cr)
          (product_id cr) (device_name cr) (product_model cr) (product_name cr)
          (functions_list cr) (status_range cr) = None
    | _ \<Rightarrow> False)"
  by code_simp

text \<open>
  Claim C3. With a dictionary that has no \<^verbatim>\<open>auth_type\<close> entry (as the one of
  \<^verbatim>\<open>prototype.py\<close>) and a cloud that accepts the login, line 166 raises \<^verbatim>\<open>KeyError\<close>,
  which leaves \<^verbatim>\<open>_login\<close>, \<^verbatim>\<open>login\<close> and \<^verbatim>\<open>get_device_credentials\<close>.
\<close>

theorem key_error_leaves_get_device_credentials:
  "fst (get_device_credentials (demo_remote [demo_device ''dc234d0a1b2f'' ''k9''] [])
          ''DC:23:4D:0A:1B:2F'' True False (prototype_config, [], world0)) = Inl KeyError"
  by code_simp

subsection \<open>Logins and the manager's dictionary\<close>

lemma call_remote_calls:
  "call_remote remote req w = (rep, w1) \<Longrightarrow> calls w1 = calls w @ [req]"
  by (auto simp: call_remote_def split: prod.splits)

lemma call_remote_attempts:
  "call_remote remote req w = (rep, w1) \<Longrightarrow>
     login_attempts w1 = login_attempts w + (if is_connect req then 1 else 0)"
  by (auto simp: call_remote_def login_attempts_def split: prod.splits)

lemma fill_device_attempts:
  "fill_device remote a device (creds, w) = (err, creds1, w1) \<Longrightarrow> login_attempts w1 = login_attempts w"
  by (auto simp: fill_device_def Let_def dest!: call_remote_attempts
           split: pyval.splits prod.splits reply.splits sum.splits option.splits)

lemma fill_devices_attempts:
  "fill_devices remote a devices (creds, w) = (err, creds1, w1) \<Longrightarrow> login_attempts w1 = login_attempts w"
proof (induction devices arbitrary: creds w)
  case Nil
  then show ?case by simp
next
  case (Cons device devices)
  obtain e cr wm where step: "fill_device remote a device (creds, w) = (e, cr, wm)"
    by (cases "fill_device remote a device (creds, w)") auto
  have m: "login_attempts wm = login_attempts w"
    using step by (rule fill_device_attempts)
  show ?case
  proof (cases e)
    case None
    with Cons.prems step have "fill_devices remote a devices (cr, wm) = (err, creds1, w1)" by simp
    then have "login_attempts w1 = login_attempts wm" by (rule Cons.IH)
    with m show ?thesis by simp
  next
    case (Some x)
    with Cons.prems step m show ?thesis by simp
  qed
qed

lemma fill_cache_item_attempts:
  "fill_cache_item remote key (c, w) = (err, c1, w1) \<Longrightarrow> login_attempts w1 = login_attempts w"
  by (auto simp: fill_cache_item_def dest!: call_remote_attempts fill_devices_attempts
           split: prod.splits reply.splits sum.splits option.splits if_splits)

lemma private_login_attempts:
  "private_login remote data b (c, w) = (res, data1, c1, w1) \<Longrightarrow>
     login_attempts w1 = (if data = [] then login_attempts w else Suc (login_attempts w))"
  by (auto simp: private_login_def Let_def dest!: call_remote_attempts
           split: prod.splits reply.splits sum.splits option.splits if_splits)

lemma private_login_data:
  "private_login remote data b (c, w) = (res, data1, c1, w1) \<Longrightarrow>
     data1 = data \<or> (\<exists>v. dict_index data CONF_AUTH_TYPE = Inr (PAuthType v) \<and>
                          data1 = dict_set data CONF_AUTH_TYPE (PInt v))"
  by (auto simp: private_login_def Let_def
           split: prod.splits reply.splits sum.splits option.splits if_splits pyval.splits)


lemma find_credentials_attempts:
  assumes "data \<noteq> []" and "has_login data \<longrightarrow> (\<exists>key. get_cache_key data = Inr key)"
    and "find_credentials remote address True (data, c, w) = (res, data1, c1, w1)"
  shows "login_attempts w1 = Suc (login_attempts w)"
proof -
  obtain r d cc ww where pl: "private_login remote data True (c, w) = (r, d, cc, ww)"
    by (cases "private_login remote data True (c, w)") auto
  from private_login_attempts [OF pl] assms(1)
  have a: "login_attempts ww = Suc (login_attempts w)" by simp
  from assms(2) obtain ck where ck:
    "(if has_login data then (case get_cache_key data of Inl e \<Rightarrow> Inl e | Inr key \<Rightarrow> Inr (Some key))
      else Inr (find_cache_key c address)) = Inr ck"
    by (cases "has_login data") auto
  show ?thesis
    using assms(3) a
    unfolding find_credentials_def public_login_def
    by (simp add: ck pl Let_def del: split_paired_All)
       (auto dest!: fill_cache_item_attempts split: sum.splits option.splits if_splits prod.splits)
qed

lemma find_credentials_data_cases:
  assumes "find_credentials remote address force_update (data, c, w) = (res, data1, c1, w1)"
    and "private_login remote data True (c, w) = (r, d, cc, ww)"
  shows "data1 = data \<or> data1 = d"
  using assms(1)
  unfolding find_credentials_def public_login_def
  by (simp add: assms(2) Let_def split: sum.splits option.splits if_splits prod.splits)

lemma find_credentials_data:
  assumes "find_credentials remote address force_update (data, c, w) = (res, data1, c1, w1)"
  shows "data1 = data \<or> (\<exists>v. dict_index data CONF_AUTH_TYPE = Inr (PAuthType v) \<and>
                          data1 = dict_set data CONF_AUTH_TYPE (PInt v))"
proof -
  obtain r d cc ww where pl: "private_login remote data True (c, w) = (r, d, cc, ww)"
    by (cases "private_login remote data True (c, w)") auto
  from find_credentials_data_cases [OF assms pl] have "data1 = data \<or> data1 = d" .
  with private_login_data [OF pl] show ?thesis by blast
qed

text \<open>
  Claim C8, as amended. With \<^verbatim>\<open>force_update\<close> set and a manager dictionary that is not
  empty, the fast path and the cached entry are passed over and exactly one login request
  is sent before the call ends (by a result or by an exception), provided the cache key
  of a dictionary with a full login set can be computed. With an empty dictionary the
  guard of line 137 returns before any request is made.
\<close>

theorem forced_update_logs_in_once:
  assumes "data \<noteq> []" and "has_login data \<longrightarrow> (\<exists>key. get_cache_key data = Inr key)"
    and "get_device_credentials remote address True save_data (data, c, w) = (res, data1, c1, w1)"
  shows "login_attempts w1 = Suc (login_attempts w)"
proof -
  obtain r d cc ww where fc: "find_credentials remote address True (data, c, w) = (r, d, cc, ww)"
    by (cases "find_credentials remote address True (data, c, w)") auto
  from find_credentials_attempts [OF assms(1,2) fc]
  have "login_attempts ww = Suc (login_attempts w)" .
  moreover have "w1 = ww"
    using assms(3) unfolding get_device_credentials_def
    by (auto simp: fc split: sum.splits option.splits if_splits prod.splits)
  ultimately show ?thesis by simp
qed

text \<open>
  Claim C10, as amended. With \<^verbatim>\<open>save_data\<close> false the manager's dictionary after the call
  is the one before it, or the one before it with the \<^verbatim>\<open>AuthType\<close> member under
  \<^verbatim>\<open>auth_type\<close> replaced by its value (line 168, after a successful login).
\<close>

theorem data_kept_without_save:
  assumes "get_device_credentials remote address force_update False (data, c, w) = (res, data1, c1, w1)"
  shows "data1 = data \<or> (\<exists>v. dict_index data CONF_AUTH_TYPE = Inr (PAuthType v) \<and>
                          data1 = dict_set data CONF_AUTH_TYPE (PInt v))"
proof -
  obtain r d cc ww where fc: "find_credentials remote address force_update (data, c, w) = (r, d, cc, ww)"
    by (cases "find_credentials remote address force_update (data, c, w)") auto
  have "data1 = d"
    using assms unfolding get_device_credentials_def
    by (auto simp: fc split: sum.splits option.splits if_splits prod.splits)
  with find_credentials_data [OF fc] show ?thesis by simp
qed

theorem forced_update_logs_in_once_witness:
  "demo_login \<noteq> [] \<and> (\<exists>key. get_cache_key demo_login = Inr key) \<and>
   login_attempts (snd (snd (snd (get_device_credentials (demo_remote [demo_device ''dc234d0a1b2f'' ''k9''] [])
        ''DC:23:4D:0A:1B:2F'' True False (demo_login, demo_cache, world0))))) = Suc (login_attempts world0)"
proof -
  let ?X = "get_device_credentials (demo_remote [demo_device ''dc234d0a1b2f'' ''k9''] [])
        ''DC:23:4D:0A:1B:2F'' True False (demo_login, demo_cache, world0)"
  have n: "demo_login \<noteq> []" by (simp add: demo_login_def)
  have "case get_cache_key demo_login of Inr key \<Rightarrow> True | Inl e \<Rightarrow> False" by code_simp
  then have k: "\<exists>key. get_cache_key demo_login = Inr key" by (auto split: sum.splits)
  then have k': "has_login demo_login \<longrightarrow> (\<exists>key. get_cache_key demo_login = Inr key)" by simp
  have q: "?X = (fst ?X, fst (snd ?X), fst (snd (snd ?X)), snd (snd (snd ?X)))" by simp
  from forced_update_logs_in_once [OF n k' q]
  have "login_attempts (snd (snd (snd ?X))) = Suc (login_attempts world0)" .
  with n k show ?thesis by blast
qed

text \<open>
  Claim C8 as stated fails: with an empty dictionary and a complete credential in the
  cache, the forced call returns that credential and no login request is sent.
\<close>

theorem forced_update_with_empty_data:
  "(case get_device_credentials (demo_remote [demo_device ''dc234d0a1b2f'' ''k9''] [])
           ''DC:23:4D:0A:1B:2F'' True False ([], demo_cache, world0) of
      (Inr (Some cr), data1, c1, w1) \<Rightarrow>
        complete cr \<and> login_attempts w1 = 0 \<and> login_attempts w1 \<noteq> Suc (login_attempts world0)
    | _ \<Rightarrow> False)"
  by code_simp

theorem data_kept_without_save_witness:
  "fst (snd (get_device_credentials (demo_remote [demo_device ''dc234d0a1b2f'' ''k9''] [])
        ''DC:23:4D:0A:1B:2F'' False False (demo_login, [], world0))) = demo_login"
proof -
  let ?X = "get_device_credentials (demo_remote [demo_device ''dc234d0a1b2f'' ''k9''] [])
        ''DC:23:4D:0A:1B:2F'' False False (demo_login, [], world0)"
  have a: "dict_index demo_login CONF_AUTH_TYPE = Inr (PInt 0)" by code_simp
  have q: "?X = (fst ?X, fst (snd ?X), fst (snd (snd ?X)), snd (snd (snd ?X)))" by simp
  from data_kept_without_save [OF q] a show ?thesis by simp
qed

text \<open>
  Claim C10 as stated fails: a successful login changes the dictionary although
  \<^verbatim>\<open>save_data\<close> is false (and no credential is found).
\<close>

theorem data_changed_without_save:
  "(case get_device_credentials (demo_remote [] []) ''DC:23:4D:0A:1B:2F'' False False
           (enum_login, [], world0) of
      (res, data1, c1, w1) \<Rightarrow>
        res = Inr None \<and> data1 \<noteq> enum_login \<and> data1 = dict_set enum_login CONF_AUTH_TYPE (PInt 1))"
  by code_simp

subsection \<open>Entries of the cache are kept\<close>

lemma map_of_dict_set: "map_of (dict_set d k v) = (map_of d)(k \<mapsto> v)"
  by (induction d) auto

lemma list_all_keys_iff:
  "list_all (\<lambda>address. map_of m' address \<noteq> None) (map fst m) \<longleftrightarrow> dom (map_of m) \<subseteq> dom (map_of m')"
proof -
  have "set (map fst m) = dom (map_of m)" by (simp add: dom_map_of_conv_image_fst)
  then show ?thesis unfolding list_all_iff by (auto simp: domIff)
qed

lemma keeps_credentials_iff:
  "keeps_credentials c c' \<longleftrightarrow>
     (\<forall>key item. map_of c key = Some item \<longrightarrow>
        (\<exists>item'. map_of c' key = Some item' \<and>
                  dom (map_of (credentials item)) \<subseteq> dom (map_of (credentials item'))))"
proof -
  let ?P = "\<lambda>key. case map_of c key of
                 None \<Rightarrow> True
               | Some item \<Rightarrow>
                   (case map_of c' key of
                      None \<Rightarrow> False
                    | Some item' \<Rightarrow>
                        list_all (\<lambda>address. map_of (credentials item') address \<noteq> None)
                          (map fst (credentials item)))"
  let ?Q = "\<lambda>key. \<forall>item. map_of c key = Some item \<longrightarrow>
        (\<exists>item'. map_of c' key = Some item' \<and>
                  dom (map_of (credentials item)) \<subseteq> dom (map_of (credentials item')))"
  have pq: "?P key \<longleftrightarrow> ?Q key" for key
    by (simp add: list_all_keys_iff del: not_None_eq split: option.splits)
  have out: "?Q key" if "key \<notin> set (map fst c)" for key
  proof -
    from that have "map_of c key = None" by (simp add: map_of_eq_None_iff)
    then show ?thesis by simp
  qed
  have "keeps_credentials c c' \<longleftrightarrow> (\<forall>key \<in> set (map fst c). ?P key)"
    unfolding keeps_credentials_def list_all_iff ..
  also have "\<dots> \<longleftrightarrow> (\<forall>key \<in> set (map fst c). ?Q key)"
    using pq by blast
  also have "\<dots> \<longleftrightarrow> (\<forall>key. ?Q key)"
    using out by blast
  finally show ?thesis by blast
qed

lemma keeps_refl: "keeps_credentials c c"
  by (simp add: keeps_credentials_iff)

lemma keeps_trans: "keeps_credentials c c1 \<Longrightarrow> keeps_credentials c1 c2 \<Longrightarrow> keeps_credentials c c2"
  unfolding keeps_credentials_iff by (meson subset_trans)

lemma keeps_dict_set_item:
  assumes "map_of c key = Some item"
    and "dom (map_of (credentials item)) \<subseteq> dom (map_of (credentials item'))"
  shows "keeps_credentials c (dict_set c key item')"
  using assms unfolding keeps_credentials_iff by (auto simp: map_of_dict_set)

lemma keeps_dict_set_new:
  assumes "map_of c key = None"
  shows "keeps_credentials c (dict_set c key item')"
  using assms unfolding keeps_credentials_iff by (auto simp: map_of_dict_set)

lemma private_login_cache:
  assumes "private_login remote data b (c, w) = (res, data1, c1, w1)"
  shows "c1 = c \<or>
     (case get_cache_key data1 of
        Inl e \<Rightarrow> False
      | Inr key \<Rightarrow>
          c1 = dict_set c key
               (case map_of c key of
                  Some cache_item \<Rightarrow> cache_item\<lparr>api := Some (login_api data), login := data1\<rparr>
                | None \<Rightarrow> \<lparr>api = Some (login_api data), login = data1, credentials = []\<rparr>))"
  using assms
  unfolding private_login_def Let_def login_api_def
  by (simp split: prod.splits reply.splits sum.splits option.splits if_splits) auto


lemma private_login_keeps:
  assumes "private_login remote data b (c, w) = (res, data1, c1, w1)"
  shows "keeps_credentials c c1"
proof -
  from private_login_cache [OF assms] show ?thesis
  proof
    assume "c1 = c" then show ?thesis by (simp add: keeps_refl)
  next
    assume h: "case get_cache_key data1 of
        Inl e \<Rightarrow> False
      | Inr key \<Rightarrow>
          c1 = dict_set c key
               (case map_of c key of
                  Some cache_item \<Rightarrow> cache_item\<lparr>api := Some (login_api data), login := data1\<rparr>
                | None \<Rightarrow> \<lparr>api = Some (login_api data), login = data1, credentials = []\<rparr>)"
    then obtain key where c1: "c1 = dict_set c key
               (case map_of c key of
                  Some cache_item \<Rightarrow> cache_item\<lparr>api := Some (login_api data), login := data1\<rparr>
                | None \<Rightarrow> \<lparr>api = Some (login_api data), login = data1, credentials = []\<rparr>)"
      by (cases "get_cache_key data1") simp_all
    show ?thesis
    proof (cases "map_of c key")
      case None
      then show ?thesis unfolding c1 by (rule keeps_dict_set_new)
    next
      case (Some item)
      have "dom (map_of (credentials item))
          \<subseteq> dom (map_of (credentials (item\<lparr>api := Some (login_api data), login := data1\<rparr>)))" by simp
      with Some have "keeps_credentials c
          (dict_set c key (item\<lparr>api := Some (login_api data), login := data1\<rparr>))"
        by (rule keeps_dict_set_item)
      then show ?thesis unfolding c1 by (simp add: Some)
    qed
  qed
qed

lemma unsuccessful_reply: "is_login_success (PDict []) = Inr False"
  by (simp add: is_login_success_def get_or_def)

lemma relogin_keeps_entry:
  assumes "private_login remote data True (c, w) = (Inr response, data1, c1, w1)"
    and "is_login_success response = Inr True"
    and "get_cache_key data1 = Inr key"
    and "map_of c key = Some item"
  shows "map_of c1 key = Some (item\<lparr>api := Some (login_api data), login := data1\<rparr>)"
proof -
  have ne: "response \<noteq> PDict []"
    using assms(2) unsuccessful_reply by auto
  show ?thesis
    using assms ne
    unfolding private_login_def Let_def login_api_def
    by (simp add: map_of_dict_set split: prod.splits reply.splits sum.splits option.splits if_splits)
       (auto simp: map_of_dict_set)
qed

lemma fill_device_keys:
  "fill_device remote a device (creds, w) = (err, creds1, w1) \<Longrightarrow>
     dom (map_of creds) \<subseteq> dom (map_of creds1)"
  by (auto simp: fill_device_def Let_def map_of_dict_set
           split: pyval.splits prod.splits reply.splits sum.splits option.splits)

lemma fill_devices_keys:
  "fill_devices remote a devices (creds, w) = (err, creds1, w1) \<Longrightarrow>
     dom (map_of creds) \<subseteq> dom (map_of creds1)"
proof (induction devices arbitrary: creds w)
  case Nil
  then show ?case by simp
next
  case (Cons device devices)
  obtain e cr wm where step: "fill_device remote a device (creds, w) = (e, cr, wm)"
    by (cases "fill_device remote a device (creds, w)") auto
  have m: "dom (map_of creds) \<subseteq> dom (map_of cr)"
    using step by (rule fill_device_keys)
  show ?case
  proof (cases e)
    case None
    with Cons.prems step have "fill_devices remote a devices (cr, wm) = (err, creds1, w1)" by simp
    then have "dom (map_of cr) \<subseteq> dom (map_of creds1)" by (rule Cons.IH)
    with m show ?thesis by blast
  next
    case (Some x)
    with Cons.prems step m show ?thesis by simp
  qed
qed

lemma fill_cache_item_cache:
  assumes "fill_cache_item remote key (c, w) = (err, c1, w1)" and "map_of c key = Some item"
  shows "c1 = c \<or>
     (\<exists>a ds w0 creds1. fill_devices remote a ds (credentials item, w0) = (err, creds1, w1) \<and>
        c1 = dict_set c key (item\<lparr>credentials := creds1\<rparr>))"
  using assms
  by (simp add: fill_cache_item_def
           split: prod.splits reply.splits sum.splits option.splits if_splits) blast+

lemma fill_cache_item_keeps:
  assumes "fill_cache_item remote key (c, w) = (err, c1, w1)"
  shows "keeps_credentials c c1"
proof (cases "map_of c key")
  case None
  with assms show ?thesis by (simp add: fill_cache_item_def keeps_refl)
next
  case (Some item)
  from fill_cache_item_cache [OF assms Some] show ?thesis
  proof (elim disjE exE conjE)
    assume "c1 = c" then show ?thesis by (simp add: keeps_refl)
  next
    fix a ds w0 creds1
    assume f: "fill_devices remote a ds (credentials item, w0) = (err, creds1, w1)"
      and c1: "c1 = dict_set c key (item\<lparr>credentials := creds1\<rparr>)"
    from fill_devices_keys [OF f]
    have "dom (map_of (credentials item)) \<subseteq> dom (map_of (credentials (item\<lparr>credentials := creds1\<rparr>)))"
      by simp
    with Some show ?thesis unfolding c1 by (rule keeps_dict_set_item)
  qed
qed

lemma build_cache_entry_keeps:
  assumes "build_cache_entry remote entry (c, w) = (err, c1, w1)"
  shows "keeps_credentials c c1"
proof -
  obtain r d cc ww where pl: "private_login remote (dict_update [] entry) True (c, w) = (r, d, cc, ww)"
    by (cases "private_login remote (dict_update [] entry) True (c, w)") auto
  have k1: "keeps_credentials c cc" using pl by (rule private_login_keeps)
  have "c1 = c \<or> c1 = cc \<or> (\<exists>key e. fill_cache_item remote key (cc, ww) = (e, c1, w1))"
    using assms unfolding build_cache_entry_def
    by (simp add: Let_def pl split: sum.splits option.splits if_splits prod.splits) blast+
  then show ?thesis
    using k1 keeps_refl keeps_trans fill_cache_item_keeps by blast
qed

lemma build_cache_loop_keeps:
  "build_cache_loop remote entries (c, w) = (err, c1, w1) \<Longrightarrow> keeps_credentials c c1"
proof (induction entries arbitrary: c w)
  case Nil
  then show ?case by (simp add: keeps_refl)
next
  case (Cons entry entries)
  obtain e cm wm where step: "build_cache_entry remote entry (c, w) = (e, cm, wm)"
    by (cases "build_cache_entry remote entry (c, w)") auto
  have k: "keeps_credentials c cm" using step by (rule build_cache_entry_keeps)
  show ?case
  proof (cases e)
    case None
    with Cons.prems step have "build_cache_loop remote entries (cm, wm) = (err, c1, w1)" by simp
    then have "keeps_credentials cm c1" by (rule Cons.IH)
    with k show ?thesis by (rule keeps_trans)
  next
    case (Some x)
    with Cons.prems step k show ?thesis by simp
  qed
qed

lemma build_cache_keeps:
  assumes "build_cache remote tuya_entries ble_entries (c, w) = (err, c1, w1)"
  shows "keeps_credentials c c1"
proof -
  obtain e cm wm where l1: "build_cache_loop remote tuya_entries (c, w) = (e, cm, wm)"
    by (cases "build_cache_loop remote tuya_entries (c, w)") auto
  have k: "keeps_credentials c cm" using l1 by (rule build_cache_loop_keeps)
  show ?thesis
  proof (cases e)
    case None
    with assms l1 have "build_cache_loop remote ble_entries (cm, wm) = (err, c1, w1)"
      by (simp add: build_cache_def)
    then have "keeps_credentials cm c1" by (rule build_cache_loop_keeps)
    with k show ?thesis by (rule keeps_trans)
  next
    case (Some x)
    with assms l1 k show ?thesis by (simp add: build_cache_def)
  qed
qed

lemma find_credentials_keeps:
  assumes "find_credentials remote address force_update (data, c, w) = (res, data1, c1, w1)"
  shows "keeps_credentials c c1"
proof -
  obtain r d cc ww where pl: "private_login remote data True (c, w) = (r, d, cc, ww)"
    by (cases "private_login remote data True (c, w)") auto
  have k1: "keeps_credentials c cc" using pl by (rule private_login_keeps)
  have "c1 = c \<or> c1 = cc \<or> (\<exists>key e. fill_cache_item remote key (cc, ww) = (e, c1, w1))"
    using assms unfolding find_credentials_def public_login_def
    by (simp add: Let_def pl split: sum.splits option.splits if_splits prod.splits) blast+
  then show ?thesis
    using k1 keeps_refl keeps_trans fill_cache_item_keeps by blast
qed

lemma get_device_credentials_keeps:
  assumes "get_device_credentials remote address force_update save_data (data, c, w) = (res, data1, c1, w1)"
  shows "keeps_credentials c c1"
proof -
  obtain r d cc ww where fc: "find_credentials remote address force_update (data, c, w) = (r, d, cc, ww)"
    by (cases "find_credentials remote address force_update (data, c, w)") auto
  have "c1 = cc"
    using assms unfolding get_device_credentials_def
    by (auto simp: fc split: sum.splits option.splits if_splits prod.splits)
  with find_credentials_keeps [OF fc] show ?thesis by simp
qed

text \<open>
  Claim C7. A successful login whose cache key already has an entry replaces the API
  object and the login dictionary of that entry and leaves its device credentials as they
  are. No operation of the manager (login, filling an item, building the cache, getting
  the credentials of a device) removes a key of the cache or an address of the credentials
  stored under a key; this holds for the state at the end of the operation, also when it
  ends by an exception.
\<close>

theorem credentials_are_kept:
  "(private_login remote data True (c, w) = (Inr response, data1, c1, w1) \<and>
      is_login_success response = Inr True \<and> get_cache_key data1 = Inr key \<and>
      map_of c key = Some item
    \<longrightarrow> map_of c1 key = Some (item\<lparr>api := Some (login_api data), login := data1\<rparr>))
   \<and> keeps_credentials c (fst (snd (snd (private_login remote data add_to_cache (c, w)))))
   \<and> keeps_credentials c (fst (snd (fill_cache_item remote key' (c, w))))
   \<and> keeps_credentials c (fst (snd (build_cache remote tuya_entries ble_entries (c, w))))
   \<and> keeps_credentials c
        (fst (snd (snd (get_device_credentials remote address force_update save_data (data, c, w)))))"
proof (intro conjI impI)
  assume "private_login remote data True (c, w) = (Inr response, data1, c1, w1) \<and>
      is_login_success response = Inr True \<and> get_cache_key data1 = Inr key \<and>
      map_of c key = Some item"
  then show "map_of c1 key = Some (item\<lparr>api := Some (login_api data), login := data1\<rparr>)"
    using relogin_keeps_entry by blast
next
  show "keeps_credentials c (fst (snd (snd (private_login remote data add_to_cache (c, w)))))"
    by (rule private_login_keeps [of remote data add_to_cache c w
          "fst (private_login remote data add_to_cache (c, w))"
          "fst (snd (private_login remote data add_to_cache (c, w)))" _
          "snd (snd (snd (private_login remote data add_to_cache (c, w))))"]) simp
next
  show "keeps_credentials c (fst (snd (fill_cache_item remote key' (c, w))))"
    by (rule fill_cache_item_keeps [of remote key' c w
          "fst (fill_cache_item remote key' (c, w))" _
          "snd (snd (fill_cache_item remote key' (c, w)))"]) simp
next
  show "keeps_credentials c (fst (snd (build_cache remote tuya_entries ble_entries (c, w))))"
    by (rule build_cache_keeps [of remote tuya_entries ble_entries c w
          "fst (build_cache remote tuya_entries ble_entries (c, w))" _
          "snd (snd (build_cache remote tuya_entries ble_entries (c, w)))"]) simp
next
  show "keeps_credentials c
        (fst (snd (snd (get_device_credentials remote address force_update save_data (data, c, w)))))"
    by (rule get_device_credentials_keeps [of remote address force_update save_data data c w
          "fst (get_device_credentials remote address force_update save_data (data, c, w))"
          "fst (snd (get_device_credentials remote address force_update save_data (data, c, w)))" _
          "snd (snd (snd (get_device_credentials remote address force_update save_data (data, c, w))))"]) simp
qed

theorem credentials_are_kept_witness:
  "(case get_cache_key demo_login of
      Inl e \<Rightarrow> False
    | Inr key \<Rightarrow>
        (case map_of demo_cache key of
           None \<Rightarrow> False
         | Some item \<Rightarrow>
             credentials item \<noteq> [] \<and>
             map_of (fst (snd (snd (private_login (demo_remote [] []) demo_login True (demo_cache, world0))))) key
               = Some (item\<lparr>api := Some (login_api demo_login), login := demo_login\<rparr>)))
   \<and> keeps_credentials demo_cache
        (fst (snd (snd (private_login (demo_remote [] []) demo_login True (demo_cache, world0)))))"
proof -
  let ?X = "private_login (demo_remote [] []) demo_login True (demo_cache, world0)"
  have "case get_cache_key demo_login of
      Inl e \<Rightarrow> False
    | Inr key \<Rightarrow> (case map_of demo_cache key of None \<Rightarrow> False | Some item \<Rightarrow> credentials item \<noteq> [])"
    by code_simp
  then obtain key item where k: "get_cache_key demo_login = Inr key"
    and m: "map_of demo_cache key = Some item" and ne: "credentials item \<noteq> []"
    by (auto split: sum.splits option.splits)
  have r: "fst ?X = Inr (PDict [(''success'', PBool True)])" by code_simp
  have d: "fst (snd ?X) = demo_login" by code_simp
  have x: "?X = (Inr (PDict [(''success'', PBool True)]), demo_login, fst (snd (snd ?X)), snd (snd (snd ?X)))"
    using r d by (metis prod.collapse)
  have s: "is_login_success (PDict [(''success'', PBool True)]) = Inr True" by code_simp
  note inst = credentials_are_kept [where remote = "demo_remote [] []" and data = demo_login
      and c = demo_cache and w = world0 and response = "PDict [(''success'', PBool True)]"
      and ?data1.0 = demo_login and ?c1.0 = "fst (snd (snd ?X))" and ?w1.0 = "snd (snd (snd ?X))"
      and key = key and item = item and add_to_cache = True]
  from inst x s k m
  have 1: "map_of (fst (snd (snd ?X))) key
      = Some (item\<lparr>api := Some (login_api demo_login), login := demo_login\<rparr>)" by blast
  from inst have 2: "keeps_credentials demo_cache (fst (snd (snd ?X)))" by blast
  from 1 2 k m ne show ?thesis by simp
qed

subsection \<open>Filling an item when a request fails\<close>

lemma fill_device_returns:
  assumes "remote (rstate w) (GetFactoryInfo a (dict_get d ''id'')) = (Returns fi, r1)"
    and "factory_mac fi = Inr (Some m)"
    and "remote r1 (GetSpecification a (dict_get d ''id'')) = (Returns sp, r2)"
    and "spec_update sp (device_entry m d) = Inr e"
  shows "fill_device remote a (PDict d) (creds, w) =
     (None, dict_set (dict_set creds m (device_entry m d)) m e,
      \<lparr>rstate = r2,
       calls = calls w @ [GetFactoryInfo a (dict_get d ''id''), GetSpecification a (dict_get d ''id'')]\<rparr>)"
  using assms by (simp add: fill_device_def call_remote_def Let_def)

lemma fill_device_spec_raises:
  assumes "remote (rstate w) (GetFactoryInfo a (dict_get d ''id'')) = (Returns fi, r1)"
    and "factory_mac fi = Inr (Some m)"
    and "remote r1 (GetSpecification a (dict_get d ''id'')) = (Raises, r2)"
  shows "fill_device remote a (PDict d) (creds, w) =
     (None, dict_set creds m (device_entry m d),
      \<lparr>rstate = r2,
       calls = calls w @ [GetFactoryInfo a (dict_get d ''id''), GetSpecification a (dict_get d ''id'')]\<rparr>)"
  using assms by (simp add: fill_device_def call_remote_def Let_def)

lemma spec_update_get_or:
  assumes "spec_update sp entry = Inr e" and "k \<noteq> CONF_FUNCTIONS" and "k \<noteq> CONF_STATUS_RANGE"
  shows "get_or e k dflt = get_or entry k dflt"
  using assms
  by (auto simp: spec_update_def Let_def get_or_def map_of_dict_set
           split: sum.splits if_splits)

lemma spec_update_complete:
  assumes "spec_update sp entry = Inr e"
  shows "complete (make_credentials e) = complete (make_credentials entry)"
proof -
  have "get_or e k (PStr []) = get_or entry k (PStr [])"
    if "k \<in> {CONF_UUID, CONF_LOCAL_KEY, CONF_DEVICE_ID, CONF_CATEGORY, CONF_PRODUCT_ID}" for k
    using that by (intro spec_update_get_or [OF assms]) (auto simp: conf_defs)
  then show ?thesis by (simp add: complete_def make_credentials_def)
qed

lemma device_entry_no_functions:
  "map_of (device_entry m d) CONF_FUNCTIONS = None \<and> map_of (device_entry m d) CONF_STATUS_RANGE = None"
  by (simp add: device_entry_def conf_defs)

lemma fill_cache_item_list_raises:
  assumes "map_of c key = Some item" and "api item = Some a"
    and "remote (rstate w) (GetDevices a) = (Raises, r)"
  shows "fill_cache_item remote key (c, w) = (None, c, \<lparr>rstate = r, calls = calls w @ [GetDevices a]\<rparr>)"
  using assms by (simp add: fill_cache_item_def call_remote_def)

text \<open>
  Claim C4, as amended. The cloud lists the devices A, B and C; the factory-info and
  specification requests of A and C succeed, the specification request of B raises. Then
  \<^verbatim>\<open>_fill_cache_item\<close> ends without an exception, the item holds the credentials of A and
  of C (complete when their listing is), and it also holds an entry for B: the fields of
  the listing, stored at line 227 before the specification is requested, without
  functions and status range. And when the listing request of an account raises after
  its login, \<^verbatim>\<open>build_cache\<close> leaves that account's item empty and goes on with the next
  configuration entry.
\<close>

theorem partial_failure_is_tolerated:
  assumes "map_of c key = Some item" and "api item = Some a"
    and "remote (rstate w) (GetDevices a) = (Returns devices_response, r0)"
    and "val_get devices_response TUYA_RESPONSE_RESULT = Inr (PList [PDict dA, PDict dB, PDict dC])"
    and "remote r0 (GetFactoryInfo a (dict_get dA ''id'')) = (Returns fiA, r1)"
    and "factory_mac fiA = Inr (Some mA)"
    and "remote r1 (GetSpecification a (dict_get dA ''id'')) = (Returns spA, r2)"
    and "spec_update spA (device_entry mA dA) = Inr eA"
    and "remote r2 (GetFactoryInfo a (dict_get dB ''id'')) = (Returns fiB, r3)"
    and "factory_mac fiB = Inr (Some mB)"
    and "remote r3 (GetSpecification a (dict_get dB ''id'')) = (Raises, r4)"
    and "remote r4 (GetFactoryInfo a (dict_get dC ''id'')) = (Returns fiC, r5)"
    and "factory_mac fiC = Inr (Some mC)"
    and "remote r5 (GetSpecification a (dict_get dC ''id'')) = (Returns spC, r6)"
    and "spec_update spC (device_entry mC dC) = Inr eC"
    and "distinct [mA, mB, mC]"
    and "complete (make_credentials (device_entry mA dA))"
    and "complete (make_credentials (device_entry mC dC))"
    and "get_cache_key (dict_update [] entry) = Inr key'"
    and "case map_of c' key' of None \<Rightarrow> True | Some it \<Rightarrow> credentials it = []"
    and "private_login remote (dict_update [] entry) True (c', w') = (Inr response, data1, c1', w1')"
    and "is_login_success response = Inr True"
    and "map_of c1' key' = Some it1" and "credentials it1 = []" and "api it1 = Some a'"
    and "remote (rstate w1') (GetDevices a') = (Raises, r')"
  shows "(\<exists>c1 w1 item1.
            fill_cache_item remote key (c, w) = (None, c1, w1) \<and>
            map_of c1 key = Some item1 \<and>
            map_of (credentials item1) mA = Some eA \<and> complete (make_credentials eA) \<and>
            map_of (credentials item1) mC = Some eC \<and> complete (make_credentials eC) \<and>
            map_of (credentials item1) mB = Some (device_entry mB dB) \<and>
            map_of (device_entry mB dB) CONF_FUNCTIONS = None \<and>
            map_of (device_entry mB dB) CONF_STATUS_RANGE = None)
       \<and> build_cache_loop remote (entry # entries) (c', w')
           = build_cache_loop remote entries
               (c1', \<lparr>rstate = r', calls = calls w1' @ [GetDevices a']\<rparr>)"
proof (intro conjI)
  let ?wl = "\<lparr>rstate = r0, calls = calls w @ [GetDevices a]\<rparr>"
  let ?crA = "dict_set (dict_set (credentials item) mA (device_entry mA dA)) mA eA"
  let ?crB = "dict_set ?crA mB (device_entry mB dB)"
  let ?crC = "dict_set (dict_set ?crB mC (device_entry mC dC)) mC eC"
  obtain wA where sA: "fill_device remote a (PDict dA) (credentials item, ?wl) = (None, ?crA, wA)"
    and rA: "rstate wA = r2"
    using fill_device_returns [of remote ?wl a dA fiA r1 mA spA r2 eA "credentials item"] assms(5-8)
    by simp
  obtain wB where sB: "fill_device remote a (PDict dB) (?crA, wA) = (None, ?crB, wB)"
    and rB: "rstate wB = r4"
    using fill_device_spec_raises [of remote wA a dB fiB r3 mB r4 ?crA] assms(9-11) rA
    by simp
  obtain wC where sC: "fill_device remote a (PDict dC) (?crB, wB) = (None, ?crC, wC)"
    and rC: "rstate wC = r6"
    using fill_device_returns [of remote wB a dC fiC r5 mC spC r6 eC ?crB] assms(12-15) rB
    by simp
  have loop: "fill_devices remote a [PDict dA, PDict dB, PDict dC] (credentials item, ?wl) = (None, ?crC, wC)"
    by (simp add: sA sB sC)
  have f: "fill_cache_item remote key (c, w) = (None, dict_set c key (item\<lparr>credentials := ?crC\<rparr>), wC)"
    using assms(1-4) loop by (simp add: fill_cache_item_def call_remote_def)
  have look: "map_of ?crC mA = Some eA" "map_of ?crC mB = Some (device_entry mB dB)" "map_of ?crC mC = Some eC"
    using assms(16) by (simp_all add: map_of_dict_set)
  have comp: "complete (make_credentials eA)" "complete (make_credentials eC)"
    using assms(8,15,17,18) by (simp_all add: spec_update_complete)
  show "\<exists>c1 w1 item1.
            fill_cache_item remote key (c, w) = (None, c1, w1) \<and>
            map_of c1 key = Some item1 \<and>
            map_of (credentials item1) mA = Some eA \<and> complete (make_credentials eA) \<and>
            map_of (credentials item1) mC = Some eC \<and> complete (make_credentials eC) \<and>
            map_of (credentials item1) mB = Some (device_entry mB dB) \<and>
            map_of (device_entry mB dB) CONF_FUNCTIONS = None \<and>
            map_of (device_entry mB dB) CONF_STATUS_RANGE = None"
    using f look comp device_entry_no_functions [of mB dB]
    by (intro exI [of _ "dict_set c key (item\<lparr>credentials := ?crC\<rparr>)"] exI [of _ wC]
          exI [of _ "item\<lparr>credentials := ?crC\<rparr>"]) (simp add: map_of_dict_set)
next
  have fill: "fill_cache_item remote key' (c1', w1')
      = (None, c1', \<lparr>rstate = r', calls = calls w1' @ [GetDevices a']\<rparr>)"
    using assms(23,25,26) by (rule fill_cache_item_list_raises)
  have "build_cache_entry remote entry (c', w')
      = (None, c1', \<lparr>rstate = r', calls = calls w1' @ [GetDevices a']\<rparr>)"
    using assms(19-24) fill
    by (simp add: build_cache_entry_def Let_def split: option.splits)
  then show "build_cache_loop remote (entry # entries) (c', w')
           = build_cache_loop remote entries
               (c1', \<lparr>rstate = r', calls = calls w1' @ [GetDevices a']\<rparr>)"
    by simp
qed

text \<open>
  Claim C4 as stated fails: after the pass the item has an entry for B.
\<close>

theorem entry_without_specification:
  "(case build_cache abc_remote [demo_login] [] ([], world0) of
      (None, [(key, item)], w1) \<Rightarrow>
        map fst (credentials item) = [''A0:00:00:00:00:01'', ''B0:00:00:00:00:02'', ''C0:00:00:00:00:03'']
        \<and> map_of (credentials item) ''B0:00:00:00:00:02''
            = Some (device_entry ''B0:00:00:00:00:02'' (demo_fields ''b00000000002'' ''kB''))
    | _ \<Rightarrow> False)"
  by code_simp

theorem partial_failure_is_tolerated_witness:
  "(\<exists>c1 w1 item1.
      fill_cache_item abc_remote (projr (get_cache_key demo_login)) (abc_cache, world0) = (None, c1, w1) \<and>
      map_of c1 (projr (get_cache_key demo_login)) = Some item1 \<and>
      complete (make_credentials (the (map_of (credentials item1) ''A0:00:00:00:00:01''))) \<and>
      complete (make_credentials (the (map_of (credentials item1) ''C0:00:00:00:00:03''))) \<and>
      map_of (credentials item1) ''B0:00:00:00:00:02''
        = Some (device_entry ''B0:00:00:00:00:02'' (demo_fields ''b00000000002'' ''kB'')))
   \<and> build_cache_loop abc_remote [offline_login, demo_login] ([], world0)
       = build_cache_loop abc_remote [demo_login]
           (fst (snd (snd (private_login abc_remote offline_login True ([], world0)))),
            \<lparr>rstate = (),
             calls = calls (snd (snd (snd (private_login abc_remote offline_login True ([], world0)))))
                     @ [GetDevices (login_api offline_login)]\<rparr>)"
proof -
  let ?key = "projr (get_cache_key demo_login)"
  let ?item = "the (map_of abc_cache ?key)"
  let ?a = "login_api demo_login"
  let ?dA = "demo_fields ''a00000000001'' ''kA''"
  let ?dB = "demo_fields ''b00000000002'' ''kB''"
  let ?dC = "demo_fields ''c00000000003'' ''kC''"
  let ?fi = "\<lambda>i. PDict [(''result'', PList [PDict [(''id'', PStr i), (''mac'', PStr i)]])]"
  let ?sp = "PDict [(''result'', PDict [(''functions'', PList [PStr ''switch_led'']),
                          (''status'', PList [PStr ''bright_value''])])]"
  let ?mA = "''A0:00:00:00:00:01''" and ?mB = "''B0:00:00:00:00:02''" and ?mC = "''C0:00:00:00:00:03''"
  let ?eA = "projr (spec_update ?sp (device_entry ?mA ?dA))"
  let ?eC = "projr (spec_update ?sp (device_entry ?mC ?dC))"
  let ?key' = "projr (get_cache_key offline_login)"
  let ?L = "private_login abc_remote offline_login True ([], world0)"
  let ?it1 = "the (map_of (fst (snd (snd ?L))) ?key')"
  have h1: "map_of abc_cache ?key = Some ?item" by code_simp
  have h2: "api ?item = Some ?a" by code_simp
  have h3: "abc_remote (rstate world0) (GetDevices ?a)
      = (Returns (PDict [(''result'', PList [PDict ?dA, PDict ?dB, PDict ?dC])]), ())" by code_simp
  have h4: "val_get (PDict [(''result'', PList [PDict ?dA, PDict ?dB, PDict ?dC])]) TUYA_RESPONSE_RESULT
      = Inr (PList [PDict ?dA, PDict ?dB, PDict ?dC])" by code_simp
  have h5: "abc_remote () (GetFactoryInfo ?a (dict_get ?dA ''id'')) = (Returns (?fi ''a00000000001''), ())"
    by code_simp
  have h6: "factory_mac (?fi ''a00000000001'') = Inr (Some ?mA)" by code_simp
  have h7: "abc_remote () (GetSpecification ?a (dict_get ?dA ''id'')) = (Returns ?sp, ())" by code_simp
  have h8: "spec_update ?sp (device_entry ?mA ?dA) = Inr ?eA" by code_simp
  have h9: "abc_remote () (GetFactoryInfo ?a (dict_get ?dB ''id'')) = (Returns (?fi ''b00000000002''), ())"
    by code_simp
  have h10: "factory_mac (?fi ''b00000000002'') = Inr (Some ?mB)" by code_simp
  have h11: "abc_remote () (GetSpecification ?a (dict_get ?dB ''id'')) = (Raises, ())" by code_simp
  have h12: "abc_remote () (GetFactoryInfo ?a (dict_get ?dC ''id'')) = (Returns (?fi ''c00000000003''), ())"
    by code_simp
  have h13: "factory_mac (?fi ''c00000000003'') = Inr (Some ?mC)" by code_simp
  have h14: "abc_remote () (GetSpecification ?a (dict_get ?dC ''id'')) = (Returns ?sp, ())" by code_simp
  have h15: "spec_update ?sp (device_entry ?mC ?dC) = Inr ?eC" by code_simp
  have h16: "distinct [?mA, ?mB, ?mC]" by simp
  have h17: "complete (make_credentials (device_entry ?mA ?dA))" by code_simp
  have h18: "complete (make_credentials (device_entry ?mC ?dC))" by code_simp
  have h19: "get_cache_key (dict_update [] offline_login) = Inr ?key'" by code_simp
  have h20: "case map_of ([] :: cache) ?key' of None \<Rightarrow> True | Some it \<Rightarrow> credentials it = []" by simp
  have h21: "private_login abc_remote (dict_update [] offline_login) True ([], world0)
      = (Inr (PDict [(''success'', PBool True)]), offline_login, fst (snd (snd ?L)), snd (snd (snd ?L)))"
    by code_simp
  have h22: "is_login_success (PDict [(''success'', PBool True)]) = Inr True" by code_simp
  have h23: "map_of (fst (snd (snd ?L))) ?key' = Some ?it1" by code_simp
  have h24: "credentials ?it1 = []" by code_simp
  have h25: "api ?it1 = Some (login_api offline_login)" by code_simp
  have h26: "abc_remote (rstate (snd (snd (snd ?L)))) (GetDevices (login_api offline_login)) = (Raises, ())"
    by code_simp
  note t = partial_failure_is_tolerated [OF h1 h2 h3 h4 h5 h6 h7 h8 h9 h10 h11 h12 h13 h14 h15 h16 h17 h18
      h19 h20 h21 h22 h23 h24 h25 h26, of "[demo_login]"]
  from t show ?thesis by (elim conjE exE) (auto simp del: build_cache_loop.simps)
qed

end
